theory Spec2Isabelle
  imports Complex_Main "HOL-Library.Sublist"
begin

section \<open>JavaScript values\<close>

text \<open>
  The wrapper is JavaScript: SQL text is a string, parameters and driver results are
  arbitrary values. Numbers are IEEE 754 doubles; only their identity, their truthiness
  and the rounding of \<open>parseInt\<close> matter below, so a finite number carries its
  mathematical value. Strings are lists of characters. Values outside this universe
  (BigInt, Symbol, functions, host objects) are not modelled.
\<close>

datatype jsnum = NaN | PosInf | NegInf | NegZero | Fin real

datatype jsval =
    JNull
  | JUndefined
  | JBool bool
  | JNum jsnum
  | JStr string
  | JArr "jsval list"
  | JObj "(string \<times> jsval) list"

text \<open>\<open>ToBoolean\<close>: the falsy values are \<open>null\<close>, \<open>undefined\<close>, \<open>false\<close>, \<open>0\<close>,
  \<open>-0\<close>, \<open>NaN\<close> and the empty string; every object and every array is truthy.\<close>

fun truthy :: "jsval \<Rightarrow> bool" where
  "truthy JNull = False"
| "truthy JUndefined = False"
| "truthy (JBool b) = b"
| "truthy (JNum NaN) = False"
| "truthy (JNum NegZero) = False"
| "truthy (JNum (Fin x)) = (x \<noteq> 0)"
| "truthy (JNum _) = True"
| "truthy (JStr s) = (s \<noteq> [])"
| "truthy (JArr _) = True"
| "truthy (JObj _) = True"

text \<open>\<open>Array.isArray\<close>.\<close>

fun isArray :: "jsval \<Rightarrow> bool" where
  "isArray (JArr _) = True"
| "isArray _ = False"

section \<open>Regular expressions of \<open>countPlaceholders\<close>\<close>

text \<open>The character classes \<open>\d\<close> (\<open>[0-9]\<close>) and \<open>\w\<close> (\<open>[A-Za-z0-9_]\<close>).\<close>

definition isDigit :: "char \<Rightarrow> bool" where
  "isDigit c = (c \<in> set ''0123456789'')"

definition isWord :: "char \<Rightarrow> bool" where
  "isWord c = (c \<in> set ''abcdefghijklmnopqrstuvwxyzABCDEFGHIJKLMNOPQRSTUVWXYZ0123456789_'')"

text \<open>
  \<open>s.match(/c/g)\<close> for a one-character pattern and \<open>s.match(/c\<kappa>+/g)\<close> for a start
  character followed by one or more characters of a class: the scan goes left to right,
  a match is greedy, and the next match is searched from the end of the previous one.
  \<open>matchAll1\<close> and \<open>matchAll2\<close> give the list of matched substrings.
\<close>

fun matchAll1 :: "(char \<Rightarrow> bool) \<Rightarrow> string \<Rightarrow> string list" where
  "matchAll1 p [] = []"
| "matchAll1 p (c # s) = (if p c then [c] # matchAll1 p s else matchAll1 p s)"

function matchAll2 :: "(char \<Rightarrow> bool) \<Rightarrow> (char \<Rightarrow> bool) \<Rightarrow> string \<Rightarrow> string list" where
  "matchAll2 p q [] = []"
| "matchAll2 p q (c # s) =
     (if p c \<and> s \<noteq> [] \<and> q (hd s)
      then (c # takeWhile q s) # matchAll2 p q (dropWhile q s)
      else matchAll2 p q s)"
  by pat_completeness auto
termination
  by (relation "measure (\<lambda>(p, q, s). length s)")
     (auto simp: length_dropWhile_le le_imp_less_Suc)

text \<open>\<open>String.prototype.match\<close> with a global pattern is \<open>null\<close> when nothing matches.\<close>

definition js_match :: "string list \<Rightarrow> string list option" where
  "js_match ms = (if ms = [] then None else Some ms)"

definition match_question :: "string \<Rightarrow> string list option" where
  "match_question sql = js_match (matchAll1 (\<lambda>c. c = CHR ''?'') sql)"

definition match_dollar :: "string \<Rightarrow> string list option" where
  "match_dollar sql = js_match (matchAll2 (\<lambda>c. c = CHR ''$'') isDigit sql)"

definition match_named :: "string \<Rightarrow> string list option" where
  "match_named sql = js_match (matchAll2 (\<lambda>c. c = CHR '':'') isWord sql)"

section \<open>\<open>parseInt\<close> on a digit string\<close>

definition digitVal :: "char \<Rightarrow> nat" where
  "digitVal c = of_char c - 48"

definition decimal :: "string \<Rightarrow> nat" where
  "decimal ds = foldl (\<lambda>acc c. 10 * acc + digitVal c) 0 ds"

fun bits :: "nat \<Rightarrow> nat" where
  "bits n = (if n = 0 then 0 else Suc (bits (n div 2)))"

declare bits.simps [simp del]

text \<open>
  The Number value of a non-negative integer: exact below \<open>2^53\<close>, otherwise rounded to
  53 significant bits (to nearest, ties to even), and \<open>Infinity\<close> from \<open>2^1024\<close> on.
\<close>

definition toNumber :: "nat \<Rightarrow> jsnum" where
  "toNumber n =
     (if n < 2 ^ 53 then Fin (real n)
      else
        let e = bits n - 53;
            q = n div 2 ^ e;
            r = n mod 2 ^ e;
            half = 2 ^ (e - 1);
            q' = (if half < r \<or> (r = half \<and> odd q) then q + 1 else q);
            v = q' * 2 ^ e
        in if 2 ^ 1024 \<le> v then PosInf else Fin (real v))"

text \<open>
  \<open>parseInt(s)\<close> for a string that starts with neither white space, a sign nor \<open>0x\<close>
  (the digit run of a \<open>$n\<close> match is such a string): the longest prefix of decimal
  digits is converted, and \<open>NaN\<close> is the result when there is none.
\<close>

definition parseInt :: "string \<Rightarrow> jsnum" where
  "parseInt s =
     (let ds = takeWhile isDigit s in if ds = [] then NaN else toNumber (decimal ds))"

section \<open>\<open>DbWrapper.countPlaceholders\<close>\<close>

definition countPlaceholders :: "string \<Rightarrow> nat" where
  "countPlaceholders sql =
     (case match_question sql of
        Some questionMarkMatches \<Rightarrow> length questionMarkMatches
      | None \<Rightarrow>
         (case match_dollar sql of
            Some dollarMatches \<Rightarrow>
              (let uniqueNumbers = set (map (\<lambda>m. parseInt (drop 1 m)) dollarMatches)
               in card uniqueNumbers)
          | None \<Rightarrow>
             (case match_named sql of
                Some namedMatches \<Rightarrow> length namedMatches
              | None \<Rightarrow> 0)))"

section \<open>Errors\<close>

text \<open>
  \<open>class DatabaseError extends Error\<close>: the user message, the detail for the log and
  the error type. The constructor also writes five lines to \<open>console.error\<close>; no
  statement below observes the console, so the log is left out.
\<close>

record DatabaseError =
  message :: string
  details :: string
  type :: string

definition new_DatabaseError :: "string \<Rightarrow> string \<Rightarrow> string \<Rightarrow> DatabaseError" where
  "new_DatabaseError message' details' type' =
     \<lparr>message = message', details = details', type = type'\<rparr>"

text \<open>
  Any other thrown error object, as a driver or the runtime raises it: the properties
  the wrapper reads are \<open>error.code\<close>, \<open>error.message\<close> and \<open>error.stack\<close>, each of
  which may be missing (\<open>undefined\<close>).
\<close>

record driver_error =
  error_code :: "string option"
  error_message :: "string option"
  error_stack :: "string option"

text \<open>A thrown value; \<open>error instanceof DatabaseError\<close> holds of \<open>DbError\<close> only.\<close>

datatype thrown = DbError DatabaseError | OtherError driver_error

text \<open>
  What the runtime contributes and the repository does not define: the text of
  \<open>JSON.stringify(v)\<close> inside a template literal, and the message and the stack of the
  \<open>TypeError\<close> raised when a value that is not iterable is destructured. The message
  depends on the value; the stack also names the place in the source that raised it.
\<close>

record runtime =
  JSON_stringify :: "jsval \<Rightarrow> string"
  TypeError_message :: "jsval \<Rightarrow> string"
  TypeError_stack :: "string \<Rightarrow> jsval \<Rightarrow> string"

text \<open>The \<open>TypeError\<close> raised in the function \<open>site\<close>; it has no \<open>code\<close>.\<close>

definition not_iterable :: "runtime \<Rightarrow> string \<Rightarrow> jsval \<Rightarrow> driver_error" where
  "not_iterable rt site v =
     \<lparr>error_code = None,
      error_message = Some (TypeError_message rt v),
      error_stack = Some (TypeError_stack rt site v)\<rparr>"

section \<open>Awaited calls\<close>

text \<open>
  An \<open>async\<close> call that is awaited either resolves to a value or rejects with a thrown
  value, and changes the world (the connection, the driver, call counters) on the way.
\<close>

type_synonym ('w, 'a) io = "'w \<Rightarrow> (thrown + 'a) \<times> 'w"

definition io_return :: "'a \<Rightarrow> ('w, 'a) io" where
  "io_return x = (\<lambda>w. (Inr x, w))"

definition io_throw :: "thrown \<Rightarrow> ('w, 'a) io" where
  "io_throw e = (\<lambda>w. (Inl e, w))"

definition io_bind :: "('w, 'a) io \<Rightarrow> ('a \<Rightarrow> ('w, 'b) io) \<Rightarrow> ('w, 'b) io" where
  "io_bind m f = (\<lambda>w. case m w of (Inl e, w') \<Rightarrow> (Inl e, w') | (Inr x, w') \<Rightarrow> f x w')"

text \<open>\<open>try { m } catch (error) { h(error) }\<close>.\<close>

definition io_catch :: "('w, 'a) io \<Rightarrow> (thrown \<Rightarrow> ('w, 'a) io) \<Rightarrow> ('w, 'a) io" where
  "io_catch m h = (\<lambda>w. case m w of (Inl e, w') \<Rightarrow> h e w' | (Inr x, w') \<Rightarrow> (Inr x, w'))"

section \<open>\<open>DbWrapper.validateParams\<close>\<close>

text \<open>A non-negative integer inside a template literal: its decimal digits.\<close>

fun showNat :: "nat \<Rightarrow> string" where
  "showNat n =
     (if n < 10 then [char_of (48 + n)] else showNat (n div 10) @ [char_of (48 + n mod 10)])"

declare showNat.simps [simp del]

text \<open>\<open>Array.isArray(params) ? params : (params ? [params] : [])\<close>.\<close>

definition paramArray :: "jsval \<Rightarrow> jsval list" where
  "paramArray params =
     (case params of JArr xs \<Rightarrow> xs | _ \<Rightarrow> (if truthy params then [params] else []))"

text \<open>\<open>value === null || value === undefined || value === ''\<close>.\<close>

definition isEmptyValue :: "jsval \<Rightarrow> bool" where
  "isEmptyValue v = (v = JNull \<or> v = JUndefined \<or> v = JStr [])"

text \<open>The loop \<open>for (let i = 0; i < paramArray.length; i++)\<close>, entered at index \<open>i\<close>.\<close>

function checkEmpty :: "runtime \<Rightarrow> string \<Rightarrow> jsval list \<Rightarrow> nat \<Rightarrow> DatabaseError + bool" where
  "checkEmpty rt sql ps i =
     (if i < length ps then
        (if isEmptyValue (ps ! i) then
           Inl (new_DatabaseError ''Invalid request parameters''
                  (''Parameter at index '' @ showNat i @ '' is empty/null/undefined. SQL: '' @ sql
                     @ '', Params: '' @ JSON_stringify rt (JArr ps))
                  ''VALIDATION_EMPTY'')
         else checkEmpty rt sql ps (Suc i))
      else Inr True)"
  by pat_completeness auto
termination
  by (relation "measure (\<lambda>(rt, sql, ps, i). length ps - i)") auto

declare checkEmpty.simps [simp del]

definition validateParams :: "runtime \<Rightarrow> string \<Rightarrow> jsval \<Rightarrow> DatabaseError + bool" where
  "validateParams rt sql params =
     (let placeholderCount = countPlaceholders sql;
          ps = paramArray params
      in if placeholderCount \<noteq> length ps then
           Inl (new_DatabaseError ''Invalid request parameters''
                  (''Placeholder count mismatch. Expected '' @ showNat placeholderCount
                     @ '' parameters but got '' @ showNat (length ps) @ ''. SQL: '' @ sql
                     @ '', Params: '' @ JSON_stringify rt (JArr ps))
                  ''VALIDATION_MISMATCH'')
         else checkEmpty rt sql ps 0)"

section \<open>\<open>DbWrapper.wrapDatabaseError\<close>\<close>

text \<open>\<open>String.prototype.includes\<close>.\<close>

fun str_includes :: "string \<Rightarrow> string \<Rightarrow> bool" where
  "str_includes [] t = (t = [])"
| "str_includes (c # s) t = (prefix t (c # s) \<or> str_includes s t)"

text \<open>\<open>error.message?.includes(t)\<close> as a condition: \<open>undefined\<close> is falsy.\<close>

definition message_includes :: "driver_error \<Rightarrow> string \<Rightarrow> bool" where
  "message_includes error t =
     (case error_message error of None \<Rightarrow> False | Some m \<Rightarrow> str_includes m t)"

text \<open>An optional string property inside a template literal.\<close>

definition showProp :: "string option \<Rightarrow> string" where
  "showProp v = (case v of None \<Rightarrow> ''undefined'' | Some s \<Rightarrow> s)"

text \<open>The chain of \<open>if\<close>/\<open>else if\<close> that picks the user message and the error type.\<close>

definition classify :: "driver_error \<Rightarrow> string \<times> string" where
  "classify error =
     (if error_code error = Some ''ER_DUP_ENTRY'' then
        (''This record already exists'', ''DB_DUPLICATE'')
      else if error_code error = Some ''ER_NO_SUCH_TABLE'' then
        (''Unable to process request'', ''DB_TABLE_NOT_FOUND'')
      else if error_code error = Some ''ER_BAD_FIELD_ERROR'' then
        (''Invalid request parameters'', ''DB_FIELD_ERROR'')
      else if error_code error = Some ''SQLITE_CONSTRAINT''
              \<or> message_includes error ''UNIQUE constraint'' then
        (''This record already exists'', ''DB_DUPLICATE'')
      else if error_code error = Some ''23505'' then
        (''This record already exists'', ''DB_DUPLICATE'')
      else if error_code error = Some ''23503'' then
        (''Cannot perform this operation'', ''DB_FOREIGN_KEY'')
      else if error_code error = Some ''ECONNREFUSED''
              \<or> error_code error = Some ''ENOTFOUND''
              \<or> error_code error = Some ''ETIMEDOUT''
              \<or> message_includes error ''connect''
              \<or> message_includes error ''connection'' then
        (''Unable to connect to database'', ''DB_CONNECTION'')
      else if message_includes error ''syntax'' \<or> message_includes error ''SQL'' then
        (''Unable to process request'', ''DB_QUERY'')
      else (''Something went wrong. Please try again.'', ''DB_UNKNOWN''))"

definition wrapDatabaseError :: "runtime \<Rightarrow> driver_error \<Rightarrow> string \<Rightarrow> jsval \<Rightarrow> DatabaseError" where
  "wrapDatabaseError rt error sql params =
     (let (userMessage, errorType) = classify error;
          details' = ''Original error: '' @ showProp (error_message error)
            @ [CHR 0x0A] @ ''Stack: '' @ showProp (error_stack error)
            @ [CHR 0x0A] @ ''SQL: '' @ sql
            @ [CHR 0x0A] @ ''Params: '' @ JSON_stringify rt params
            @ [CHR 0x0A] @ ''Error code: ''
            @ (case error_code error of None \<Rightarrow> ''N/A'' | Some c \<Rightarrow> if c = [] then ''N/A'' else c)
      in new_DatabaseError userMessage details' errorType)"

section \<open>The adapter contract and \<open>DbWrapper\<close>\<close>

text \<open>
  An adapter is a module object: \<open>executeQuery\<close> is required, every other method may
  be missing (\<open>None\<close>), which is what \<open>if (this.adapter.getOne)\<close> tests. Each method
  takes the connection first.
\<close>

record ('c, 'w) Adapter =
  adapter_executeQuery :: "'c \<Rightarrow> string \<Rightarrow> jsval \<Rightarrow> ('w, jsval) io"
  adapter_getOne :: "('c \<Rightarrow> string \<Rightarrow> jsval \<Rightarrow> ('w, jsval) io) option"
  adapter_get :: "('c \<Rightarrow> string \<Rightarrow> jsval \<Rightarrow> ('w, jsval) io) option"
  adapter_exec :: "('c \<Rightarrow> string \<Rightarrow> jsval \<Rightarrow> ('w, jsval) io) option"
  adapter_beginTransaction :: "('c \<Rightarrow> ('w, jsval) io) option"
  adapter_commit :: "('c \<Rightarrow> ('w, jsval) io) option"
  adapter_rollback :: "('c \<Rightarrow> ('w, jsval) io) option"
  adapter_transaction :: "('c \<Rightarrow> ('w, jsval) io \<Rightarrow> ('w, jsval) io) option"

record ('c, 'w) DbWrapper =
  connection :: 'c
  adapter :: "('c, 'w) Adapter"

text \<open>The default parameter \<open>params = []\<close> replaces an argument that is \<open>undefined\<close>.\<close>

definition defaultParams :: "jsval \<Rightarrow> jsval" where
  "defaultParams params = (if params = JUndefined then JArr [] else params)"

text \<open>\<open>this.validateParams(sql, params)\<close> as a statement: it throws or goes on.\<close>

definition io_validate :: "runtime \<Rightarrow> string \<Rightarrow> jsval \<Rightarrow> ('w, bool) io" where
  "io_validate rt sql params =
     (case validateParams rt sql params of
        Inl e \<Rightarrow> io_throw (DbError e)
      | Inr ok \<Rightarrow> io_return ok)"

text \<open>
  The \<open>catch (error)\<close> block shared by \<open>query\<close>, \<open>getOne\<close>, \<open>get\<close> and \<open>exec\<close>: a
  \<open>DatabaseError\<close> is thrown again, anything else is wrapped first.
\<close>

definition catch_block :: "runtime \<Rightarrow> string \<Rightarrow> jsval \<Rightarrow> thrown \<Rightarrow> ('w, 'a) io" where
  "catch_block rt sql params error =
     (case error of
        DbError e \<Rightarrow> io_throw error
      | OtherError e \<Rightarrow> io_throw (DbError (wrapDatabaseError rt e sql params)))"

definition query :: "runtime \<Rightarrow> ('c, 'w) DbWrapper \<Rightarrow> string \<Rightarrow> jsval \<Rightarrow> ('w, jsval) io" where
  "query rt this sql params0 =
     (let params = defaultParams params0 in
      io_catch
        (io_bind (io_validate rt sql params) (\<lambda>_.
         io_bind (adapter_executeQuery (adapter this) (connection this) sql params) (\<lambda>result.
         io_return result)))
        (catch_block rt sql params))"

text \<open>\<open>result[0]\<close> (\<open>undefined\<close> on an empty array) and \<open>a || b\<close>.\<close>

definition index0 :: "jsval list \<Rightarrow> jsval" where
  "index0 xs = (case xs of [] \<Rightarrow> JUndefined | x # _ \<Rightarrow> x)"

definition js_or :: "jsval \<Rightarrow> jsval \<Rightarrow> jsval" where
  "js_or a b = (if truthy a then a else b)"

definition getOne :: "runtime \<Rightarrow> ('c, 'w) DbWrapper \<Rightarrow> string \<Rightarrow> jsval \<Rightarrow> ('w, jsval) io" where
  "getOne rt this sql params0 =
     (let params = defaultParams params0 in
      case adapter_getOne (adapter this) of
        Some adapter_method \<Rightarrow>
          io_catch
            (io_bind (io_validate rt sql params) (\<lambda>_.
             adapter_method (connection this) sql params))
            (catch_block rt sql params)
      | None \<Rightarrow>
          io_bind (query rt this sql params) (\<lambda>result.
          io_return (case result of JArr xs \<Rightarrow> js_or (index0 xs) JNull | _ \<Rightarrow> JNull)))"

definition get :: "runtime \<Rightarrow> ('c, 'w) DbWrapper \<Rightarrow> string \<Rightarrow> jsval \<Rightarrow> ('w, jsval) io" where
  "get rt this sql params0 =
     (let params = defaultParams params0 in
      case adapter_get (adapter this) of
        Some adapter_method \<Rightarrow>
          io_catch
            (io_bind (io_validate rt sql params) (\<lambda>_.
             adapter_method (connection this) sql params))
            (catch_block rt sql params)
      | None \<Rightarrow>
          io_bind (query rt this sql params) (\<lambda>result.
          io_return (if isArray result then result else JArr [])))"

definition exec :: "runtime \<Rightarrow> ('c, 'w) DbWrapper \<Rightarrow> string \<Rightarrow> jsval \<Rightarrow> ('w, jsval) io" where
  "exec rt this sql params0 =
     (let params = defaultParams params0 in
      case adapter_exec (adapter this) of
        Some adapter_method \<Rightarrow>
          io_catch
            (io_bind (io_validate rt sql params) (\<lambda>_.
             adapter_method (connection this) sql params))
            (catch_block rt sql params)
      | None \<Rightarrow> query rt this sql params)"

section \<open>The MySQL adapter\<close>

text \<open>The methods of a \<open>mysql2\<close> connection that the adapter calls.\<close>

record 'w Connection =
  execute :: "string \<Rightarrow> jsval \<Rightarrow> ('w, jsval) io"
  beginTransaction :: "('w, jsval) io"
  commit :: "('w, jsval) io"
  rollback :: "('w, jsval) io"

text \<open>
  \<open>const [rows] = v\<close> in the function \<open>site\<close>: the first element of an array
  (\<open>undefined\<close> when it is empty), the first character of a string, and a \<open>TypeError\<close>
  raised there for a value that is not iterable.
\<close>

definition destructure_first :: "runtime \<Rightarrow> string \<Rightarrow> jsval \<Rightarrow> ('w, jsval) io" where
  "destructure_first rt site v =
     (case v of
        JArr xs \<Rightarrow> io_return (index0 xs)
      | JStr cs \<Rightarrow> io_return (case cs of [] \<Rightarrow> JUndefined | c # _ \<Rightarrow> JStr [c])
      | _ \<Rightarrow> io_throw (OtherError (not_iterable rt site v)))"

definition mysql_executeQuery ::
    "runtime \<Rightarrow> 'w Connection \<Rightarrow> string \<Rightarrow> jsval \<Rightarrow> ('w, jsval) io" where
  "mysql_executeQuery rt conn sql params =
     io_catch
       (io_bind (execute conn sql params) (\<lambda>v.
        io_bind (destructure_first rt ''executeQuery'' v) (\<lambda>rows.
        io_return rows)))
       (\<lambda>error. io_throw error)"

definition mysql_getOne ::
    "runtime \<Rightarrow> 'w Connection \<Rightarrow> string \<Rightarrow> jsval \<Rightarrow> ('w, jsval) io" where
  "mysql_getOne rt conn sql params =
     io_catch
       (io_bind (execute conn sql params) (\<lambda>v.
        io_bind (destructure_first rt ''getOne'' v) (\<lambda>rows.
        (case rows of
           JArr xs \<Rightarrow> if 0 < length xs then io_return (xs ! 0) else io_return JNull
         | _ \<Rightarrow> io_return JNull))))
       (\<lambda>error. io_throw error)"

definition mysql_get ::
    "runtime \<Rightarrow> 'w Connection \<Rightarrow> string \<Rightarrow> jsval \<Rightarrow> ('w, jsval) io" where
  "mysql_get rt conn sql params =
     io_catch
       (io_bind (execute conn sql params) (\<lambda>v.
        io_bind (destructure_first rt ''get'' v) (\<lambda>rows.
        io_return (if isArray rows then rows else JArr []))))
       (\<lambda>error. io_throw error)"

definition mysql_exec ::
    "runtime \<Rightarrow> 'w Connection \<Rightarrow> string \<Rightarrow> jsval \<Rightarrow> ('w, jsval) io" where
  "mysql_exec rt conn sql params =
     io_catch
       (io_bind (execute conn sql params) (\<lambda>v.
        io_bind (destructure_first rt ''exec'' v) (\<lambda>result.
        io_return result)))
       (\<lambda>error. io_throw error)"

definition mysql_beginTransaction :: "'w Connection \<Rightarrow> ('w, jsval) io" where
  "mysql_beginTransaction conn =
     io_catch (io_bind (beginTransaction conn) (\<lambda>_. io_return JUndefined))
       (\<lambda>error. io_throw error)"

definition mysql_commit :: "'w Connection \<Rightarrow> ('w, jsval) io" where
  "mysql_commit conn =
     io_catch (io_bind (commit conn) (\<lambda>_. io_return JUndefined)) (\<lambda>error. io_throw error)"

definition mysql_rollback :: "'w Connection \<Rightarrow> ('w, jsval) io" where
  "mysql_rollback conn =
     io_catch (io_bind (rollback conn) (\<lambda>_. io_return JUndefined)) (\<lambda>error. io_throw error)"

text \<open>
  \<open>transaction(connection, callback)\<close>: begin, callback and commit stand in one
  \<open>try\<close> block; its \<open>catch\<close> awaits the rollback and then throws the caught error, so
  a rejected rollback replaces it.
\<close>

definition mysql_transaction :: "'w Connection \<Rightarrow> ('w, jsval) io \<Rightarrow> ('w, jsval) io" where
  "mysql_transaction conn callback =
     io_catch
       (io_bind (beginTransaction conn) (\<lambda>_.
        io_bind callback (\<lambda>result.
        io_bind (commit conn) (\<lambda>_.
        io_return result))))
       (\<lambda>error. io_bind (rollback conn) (\<lambda>_. io_throw error))"

definition mysqlAdapter :: "runtime \<Rightarrow> ('w Connection, 'w) Adapter" where
  "mysqlAdapter rt =
     \<lparr>adapter_executeQuery = mysql_executeQuery rt,
      adapter_getOne = Some (mysql_getOne rt),
      adapter_get = Some (mysql_get rt),
      adapter_exec = Some (mysql_exec rt),
      adapter_beginTransaction = Some mysql_beginTransaction,
      adapter_commit = Some mysql_commit,
      adapter_rollback = Some mysql_rollback,
      adapter_transaction = Some mysql_transaction\<rparr>"

section \<open>\<open>wrap\<close>\<close>

record 'w WrappedDatabase =
  db_query :: "string \<Rightarrow> jsval \<Rightarrow> ('w, jsval) io"
  db_getOne :: "string \<Rightarrow> jsval \<Rightarrow> ('w, jsval) io"
  db_get :: "string \<Rightarrow> jsval \<Rightarrow> ('w, jsval) io"
  db_exec :: "string \<Rightarrow> jsval \<Rightarrow> ('w, jsval) io"
  db_beginTransaction :: "('w, jsval) io option"
  db_commit :: "('w, jsval) io option"
  db_rollback :: "('w, jsval) io option"
  db_transaction :: "(('w, jsval) io \<Rightarrow> ('w, jsval) io) option"
  db_connection :: "'w Connection"
  db_adapter :: "('w Connection, 'w) Adapter"
  db_wrapper :: "('w Connection, 'w) DbWrapper"

text \<open>
  \<open>require(`./adapters/${adapterType}`)\<close> for an adapter type that names a file of the
  adapters directory: \<open>mysql.js\<close> is its only module, found under the names \<open>mysql\<close>
  and \<open>mysql.js\<close>. An adapter type that leaves the directory (\<open>..\<close>, or a path with a
  separator) is outside this definition.
\<close>

definition require_adapter :: "runtime \<Rightarrow> string \<Rightarrow> ('w Connection, 'w) Adapter option" where
  "require_adapter rt adapterType =
     (if adapterType = ''mysql'' \<or> adapterType = ''mysql.js'' then Some (mysqlAdapter rt)
      else None)"

text \<open>
  \<open>wrap(connection, adapterType)\<close>; a missing connection is \<open>None\<close>, a missing adapter
  type the empty string. \<open>Inl\<close> carries the message of the \<open>Error\<close> thrown.
\<close>

definition wrap ::
    "runtime \<Rightarrow> 'w Connection option \<Rightarrow> string \<Rightarrow> string + 'w WrappedDatabase" where
  "wrap rt connection' adapterType =
     (case connection' of
        None \<Rightarrow> Inl ''Connection object is required''
      | Some conn \<Rightarrow>
          if adapterType = [] then
            Inl (''Adapter type is required (e.g., '' @ [CHR 0x22] @ ''mysql'' @ [CHR 0x22]
                  @ '', '' @ [CHR 0x22] @ ''sqlite'' @ [CHR 0x22]
                  @ '', '' @ [CHR 0x22] @ ''postgres'' @ [CHR 0x22] @ '')'')
          else
            (case require_adapter rt adapterType of
               None \<Rightarrow>
                 Inl (''Adapter '' @ [CHR 0x22] @ adapterType @ [CHR 0x22]
                       @ '' not found or not implemented. Available adapters: mysql'')
             | Some adapter' \<Rightarrow>
                 (let wrapper = \<lparr>connection = conn, adapter = adapter'\<rparr> in
                  Inr \<lparr>db_query = query rt wrapper,
                       db_getOne = getOne rt wrapper,
                       db_get = get rt wrapper,
                       db_exec = exec rt wrapper,
                       db_beginTransaction =
                         map_option (\<lambda>f. f conn) (adapter_beginTransaction adapter'),
                       db_commit = map_option (\<lambda>f. f conn) (adapter_commit adapter'),
                       db_rollback = map_option (\<lambda>f. f conn) (adapter_rollback adapter'),
                       db_transaction =
                         map_option (\<lambda>f callback. f conn callback) (adapter_transaction adapter'),
                       db_connection = conn,
                       db_adapter = adapter',
                       db_wrapper = wrapper\<rparr>)))"

section \<open>Counting calls\<close>

text \<open>
  The tests replace adapter and connection methods by \<open>jest.fn()\<close> mocks and assert on
  their calls. A mock records the call (the method and its arguments after the
  connection) and then runs its implementation on the rest of the world.
\<close>

datatype call = Call string "jsval list"

definition spy :: "string \<Rightarrow> jsval list \<Rightarrow> ('d, 'a) io \<Rightarrow> (call list \<times> 'd, 'a) io" where
  "spy name args f = (\<lambda>(calls, d). case f d of (r, d') \<Rightarrow> (r, (calls @ [Call name args], d')))"

definition mock_method ::
    "string \<Rightarrow> ('c \<Rightarrow> string \<Rightarrow> jsval \<Rightarrow> ('d, jsval) io)
       \<Rightarrow> 'c \<Rightarrow> string \<Rightarrow> jsval \<Rightarrow> (call list \<times> 'd, jsval) io" where
  "mock_method name impl = (\<lambda>c sql params. spy name [JStr sql, params] (impl c sql params))"

text \<open>A mock adapter as in the tests: \<open>executeQuery\<close>, and whichever of \<open>getOne\<close>,
  \<open>get\<close> and \<open>exec\<close> it is given, with arbitrary implementations.\<close>

definition mockAdapter ::
    "('c \<Rightarrow> string \<Rightarrow> jsval \<Rightarrow> ('d, jsval) io)
       \<Rightarrow> ('c \<Rightarrow> string \<Rightarrow> jsval \<Rightarrow> ('d, jsval) io) option
       \<Rightarrow> ('c \<Rightarrow> string \<Rightarrow> jsval \<Rightarrow> ('d, jsval) io) option
       \<Rightarrow> ('c \<Rightarrow> string \<Rightarrow> jsval \<Rightarrow> ('d, jsval) io) option
       \<Rightarrow> ('c, call list \<times> 'd) Adapter" where
  "mockAdapter executeQuery' getOne' get' exec' =
     \<lparr>adapter_executeQuery = mock_method ''executeQuery'' executeQuery',
      adapter_getOne = map_option (mock_method ''getOne'') getOne',
      adapter_get = map_option (mock_method ''get'') get',
      adapter_exec = map_option (mock_method ''exec'') exec',
      adapter_beginTransaction = None,
      adapter_commit = None,
      adapter_rollback = None,
      adapter_transaction = None\<rparr>"

text \<open>A mock connection: every method counts its calls.\<close>

definition mockConnection :: "'d Connection \<Rightarrow> (call list \<times> 'd) Connection" where
  "mockConnection impl =
     \<lparr>execute = (\<lambda>sql params. spy ''execute'' [JStr sql, params] (execute impl sql params)),
      beginTransaction = spy ''beginTransaction'' [] (beginTransaction impl),
      commit = spy ''commit'' [] (commit impl),
      rollback = spy ''rollback'' [] (rollback impl)\<rparr>"

section \<open>The placeholder styles as the specification words them\<close>

text \<open>
  A token "start character followed by class characters" begins at every index \<open>i\<close>
  where the start character stands and a class character follows; its text after the
  start character is the longest run of class characters from \<open>i + 1\<close> on.
\<close>

definition spec_token_starts :: "(char \<Rightarrow> bool) \<Rightarrow> (char \<Rightarrow> bool) \<Rightarrow> string \<Rightarrow> nat list" where
  "spec_token_starts p q s =
     filter (\<lambda>i. p (s ! i) \<and> Suc i < length s \<and> q (s ! Suc i)) [0..<length s]"

definition spec_run_after :: "(char \<Rightarrow> bool) \<Rightarrow> string \<Rightarrow> nat \<Rightarrow> string" where
  "spec_run_after q s i = takeWhile q (drop (Suc i) s)"

text \<open>The numeric values of the \<open>$n\<close> tokens, one entry per token: the integer that
  the digits after the dollar sign write in base ten.\<close>

definition spec_dollar_numbers :: "string \<Rightarrow> nat list" where
  "spec_dollar_numbers sql =
     map (\<lambda>i. decimal (spec_run_after isDigit sql i))
       (spec_token_starts (\<lambda>c. c = CHR ''$'') isDigit sql)"

text \<open>The indices at which a \<open>:name\<close> token begins.\<close>

definition spec_named_starts :: "string \<Rightarrow> nat list" where
  "spec_named_starts sql = spec_token_starts (\<lambda>c. c = CHR '':'') isWord sql"

section \<open>Concrete inputs for the examples\<close>

text \<open>A runtime: every serialisation reads the same, and the stack of a \<open>TypeError\<close>
  ends with the function that raised it.\<close>

definition example_runtime :: runtime where
  "example_runtime =
     \<lparr>JSON_stringify = (\<lambda>v. ''[...]''),
      TypeError_message = (\<lambda>v. ''object is not iterable''),
      TypeError_stack = (\<lambda>site v. ''TypeError: object is not iterable at '' @ site)\<rparr>"

section \<open>The rule table as the specification words it\<close>

text \<open>
  "A fixed, ordered rule table (first match wins)": the rules in the order of the source,
  each a signal with the user message and the error type it selects.
\<close>

fun spec_first_match :: "'a \<Rightarrow> (('a \<Rightarrow> bool) \<times> 'b) list \<Rightarrow> 'b \<Rightarrow> 'b" where
  "spec_first_match x [] dflt = dflt"
| "spec_first_match x ((signal, outcome) # rules) dflt =
     (if signal x then outcome else spec_first_match x rules dflt)"

definition spec_rule_table :: "((driver_error \<Rightarrow> bool) \<times> string \<times> string) list" where
  "spec_rule_table =
     [(\<lambda>e. error_code e = Some ''ER_DUP_ENTRY'',
         (''This record already exists'', ''DB_DUPLICATE'')),
      (\<lambda>e. error_code e = Some ''ER_NO_SUCH_TABLE'',
         (''Unable to process request'', ''DB_TABLE_NOT_FOUND'')),
      (\<lambda>e. error_code e = Some ''ER_BAD_FIELD_ERROR'',
         (''Invalid request parameters'', ''DB_FIELD_ERROR'')),
      (\<lambda>e. error_code e = Some ''SQLITE_CONSTRAINT'' \<or> message_includes e ''UNIQUE constraint'',
         (''This record already exists'', ''DB_DUPLICATE'')),
      (\<lambda>e. error_code e = Some ''23505'',
         (''This record already exists'', ''DB_DUPLICATE'')),
      (\<lambda>e. error_code e = Some ''23503'',
         (''Cannot perform this operation'', ''DB_FOREIGN_KEY'')),
      (\<lambda>e. error_code e = Some ''ECONNREFUSED'' \<or> error_code e = Some ''ENOTFOUND''
            \<or> error_code e = Some ''ETIMEDOUT'' \<or> message_includes e ''connect''
            \<or> message_includes e ''connection'',
         (''Unable to connect to database'', ''DB_CONNECTION'')),
      (\<lambda>e. message_includes e ''syntax'' \<or> message_includes e ''SQL'',
         (''Unable to process request'', ''DB_QUERY''))]"

text \<open>The codes by which MySQL, SQLite and PostgreSQL report a duplicate key.\<close>

definition spec_duplicate_code :: "driver_error \<Rightarrow> bool" where
  "spec_duplicate_code e =
     (error_code e = Some ''ER_DUP_ENTRY'' \<or> error_code e = Some ''SQLITE_CONSTRAINT''
      \<or> error_code e = Some ''23505'')"

text \<open>The adapter method an operation invokes: the specialised one when the adapter has
  it, \<open>executeQuery\<close> otherwise.\<close>

definition invoked ::
    "('c, 'w) Adapter \<Rightarrow> ('c \<Rightarrow> string \<Rightarrow> jsval \<Rightarrow> ('w, jsval) io) option
       \<Rightarrow> 'c \<Rightarrow> string \<Rightarrow> jsval \<Rightarrow> ('w, jsval) io" where
  "invoked A specialised = (case specialised of Some f \<Rightarrow> f | None \<Rightarrow> adapter_executeQuery A)"

text \<open>An adapter whose \<open>executeQuery\<close> resolves to no rows, and one whose \<open>executeQuery\<close>
  rejects with the MySQL duplicate-entry error, as in the tests.\<close>

definition no_rows :: "unit \<Rightarrow> string \<Rightarrow> jsval \<Rightarrow> (unit, jsval) io" where
  "no_rows c sql params = io_return (JArr [])"

definition dup_entry_error :: driver_error where
  "dup_entry_error =
     \<lparr>error_code = Some ''ER_DUP_ENTRY'', error_message = Some ''ER_DUP_ENTRY'',
      error_stack = None\<rparr>"

definition rejects_dup_entry :: "unit \<Rightarrow> string \<Rightarrow> jsval \<Rightarrow> (unit, jsval) io" where
  "rejects_dup_entry c sql params = io_throw (OtherError dup_entry_error)"

section \<open>Rows and the two ways to reach them\<close>

text \<open>\<open>typeof v === 'object' && v !== null\<close>: a row is such a value.\<close>

fun isObject :: "jsval \<Rightarrow> bool" where
  "isObject (JObj _) = True"
| "isObject (JArr _) = True"
| "isObject _ = False"

text \<open>The MySQL adapter with its specialised methods taken away, so that \<open>getOne\<close>,
  \<open>get\<close> and \<open>exec\<close> fall back to \<open>query\<close>.\<close>

definition mysqlFallbackAdapter :: "runtime \<Rightarrow> ('w Connection, 'w) Adapter" where
  "mysqlFallbackAdapter rt =
     (mysqlAdapter rt)\<lparr>adapter_getOne := None, adapter_get := None, adapter_exec := None\<rparr>"

text \<open>A raw result as the adapter contract has it: a sequence of row objects, or a
  value that is not a sequence (a mutation report).\<close>

definition row_result :: "jsval \<Rightarrow> bool" where
  "row_result raw = (case raw of JArr rows \<Rightarrow> list_all isObject rows | _ \<Rightarrow> True)"

text \<open>The values \<open>const [rows] = v\<close> accepts: arrays and strings.\<close>

fun iterable :: "jsval \<Rightarrow> bool" where
  "iterable (JArr _) = True"
| "iterable (JStr _) = True"
| "iterable _ = False"


text \<open>Inputs of the examples: a row and an adapter that finds it, a mutation report and
  an adapter that resolves to it, an adapter that plucks the one column of a count, and
  connections that resolve to the row and to such a count.\<close>

definition john :: jsval where
  "john = JObj [(''id'', JNum (Fin 1)), (''name'', JStr ''John'')]"

definition one_row :: "unit \<Rightarrow> string \<Rightarrow> jsval \<Rightarrow> (unit, jsval) io" where
  "one_row c sql params = io_return (JArr [john])"

definition insert_report :: jsval where
  "insert_report = JObj [(''insertId'', JNum (Fin 123)), (''affectedRows'', JNum (Fin 1))]"

definition one_report :: "unit \<Rightarrow> string \<Rightarrow> jsval \<Rightarrow> (unit, jsval) io" where
  "one_report c sql params = io_return insert_report"

definition plucked_count :: "unit \<Rightarrow> string \<Rightarrow> jsval \<Rightarrow> (unit, jsval) io" where
  "plucked_count c sql params = io_return (JArr [JNum (Fin 0)])"


definition count_connection :: "unit Connection" where
  "count_connection =
     \<lparr>execute = (\<lambda>sql params. io_return (JArr [JArr [JNum (Fin 0)], JArr []])),
      beginTransaction = io_return JUndefined,
      commit = io_return JUndefined,
      rollback = io_return JUndefined\<rparr>"

section \<open>Connections and units of work of the transaction examples\<close>

text \<open>A connection on which every call resolves; \<open>execute\<close> reports one affected row.\<close>

definition healthy :: "unit Connection" where
  "healthy =
     \<lparr>execute = (\<lambda>sql params.
        io_return (JArr [JObj [(''affectedRows'', JNum (Fin 1))], JUndefined])),
      beginTransaction = io_return JUndefined,
      commit = io_return JUndefined,
      rollback = io_return JUndefined\<rparr>"

definition commit_error :: driver_error where
  "commit_error =
     \<lparr>error_code = Some ''ER_LOCK_DEADLOCK'',
      error_message = Some ''Deadlock found when trying to get lock'',
      error_stack = None\<rparr>"

definition rollback_error :: driver_error where
  "rollback_error =
     \<lparr>error_code = None, error_message = Some ''Rollback failed'', error_stack = None\<rparr>"

definition unit_error :: driver_error where
  "unit_error =
     \<lparr>error_code = None, error_message = Some ''Transaction failed'', error_stack = None\<rparr>"

definition refused_error :: driver_error where
  "refused_error =
     \<lparr>error_code = Some ''ECONNREFUSED'', error_message = Some ''Connection refused'',
      error_stack = None\<rparr>"

text \<open>Connections on which the commit, the rollback, or every call is rejected.\<close>

definition commit_fails :: "unit Connection" where
  "commit_fails = healthy\<lparr>commit := io_throw (OtherError commit_error)\<rparr>"

definition rollback_fails :: "unit Connection" where
  "rollback_fails = healthy\<lparr>rollback := io_throw (OtherError rollback_error)\<rparr>"

definition refusing :: "unit Connection" where
  "refusing =
     \<lparr>execute = (\<lambda>sql params. io_throw (OtherError refused_error)),
      beginTransaction = io_throw (OtherError refused_error),
      commit = io_throw (OtherError refused_error),
      rollback = io_throw (OtherError refused_error)\<rparr>"

text \<open>A unit of work that returns \<open>'success'\<close>, one that fails at once, and one that
  fails after one insert on the given connection.\<close>

definition unit_succeeds :: "('w, jsval) io" where
  "unit_succeeds = io_return (JStr ''success'')"

definition unit_fails :: "('w, jsval) io" where
  "unit_fails = io_throw (OtherError unit_error)"

definition unit_fails_after_insert :: "'w Connection \<Rightarrow> ('w, jsval) io" where
  "unit_fails_after_insert conn =
     io_bind (execute conn ''INSERT INTO users (name) VALUES (?)'' (JArr [JStr ''John'']))
       (\<lambda>_. io_throw (OtherError unit_error))"

section \<open>Properties of \<open>countPlaceholders\<close>\<close>

lemma spec_token_starts_Cons:
  "spec_token_starts p q (c # s) =
     (if p c \<and> s \<noteq> [] \<and> q (hd s) then [0] else []) @ map Suc (spec_token_starts p q s)"
proof -
  have upt: "[0..<length (c # s)] = 0 # map Suc [0..<length s]"
    by (simp add: upt_conv_Cons map_Suc_upt del: upt_Suc)
  have hd0: "s \<noteq> [] \<Longrightarrow> s ! 0 = hd s"
    by (simp add: hd_conv_nth)
  show ?thesis
    unfolding spec_token_starts_def upt
    by (auto simp: filter_map o_def hd0)
qed

lemma spec_run_after_Cons: "spec_run_after q (c # s) (Suc i) = spec_run_after q s i"
  by (simp add: spec_run_after_def)

lemma spec_run_after_0: "spec_run_after q (c # s) 0 = takeWhile q s"
  by (simp add: spec_run_after_def)

text \<open>No token begins inside a run of class characters, so the scan may jump over it.\<close>

lemma runs_skip_class_prefix:
  assumes pq: "\<And>c. p c \<Longrightarrow> \<not> q c" and u: "\<forall>c \<in> set u. q c"
  shows "map (spec_run_after q (u @ v)) (spec_token_starts p q (u @ v)) =
         map (spec_run_after q v) (spec_token_starts p q v)"
  using u
proof (induction u)
  case Nil
  then show ?case by simp
next
  case (Cons a u)
  then have "\<not> p a" using pq by auto
  with Cons show ?case
    by (simp add: spec_token_starts_Cons o_def spec_run_after_Cons)
qed

lemma runs_matchAll2:
  assumes pq: "\<And>c. p c \<Longrightarrow> \<not> q c"
  shows "map (spec_run_after q s) (spec_token_starts p q s) = map tl (matchAll2 p q s)"
  using pq
proof (induction p q s rule: matchAll2.induct)
  case (1 p q)
  then show ?case by (simp add: spec_token_starts_def)
next
  case (2 p q c s)
  note pq' = \<open>\<And>c. p c \<Longrightarrow> \<not> q c\<close>
  show ?case
  proof (cases "p c \<and> s \<noteq> [] \<and> q (hd s)")
    case True
    have "map (spec_run_after q s) (spec_token_starts p q s) =
          map (spec_run_after q (takeWhile q s @ dropWhile q s))
            (spec_token_starts p q (takeWhile q s @ dropWhile q s))"
      by simp
    also have "\<dots> = map (spec_run_after q (dropWhile q s)) (spec_token_starts p q (dropWhile q s))"
      by (rule runs_skip_class_prefix) (auto dest: set_takeWhileD pq')
    finally show ?thesis
      using True 2 pq'
      by (simp add: spec_token_starts_Cons o_def spec_run_after_Cons spec_run_after_0)
  next
    case False
    with 2 pq' show ?thesis
      by (auto simp: spec_token_starts_Cons o_def spec_run_after_Cons)
  qed
qed

lemma length_matchAll1: "length (matchAll1 (\<lambda>c. c = a) s) = count_list s a"
  by (induction s) auto

lemma matchAll1_Nil_iff: "matchAll1 (\<lambda>c. c = a) s = [] \<longleftrightarrow> a \<notin> set s"
  by (induction s) auto

lemma dollar_not_digit: "c = CHR ''$'' \<Longrightarrow> \<not> isDigit c"
  by (simp add: isDigit_def)

lemma colon_not_word: "c = CHR '':'' \<Longrightarrow> \<not> isWord c"
  by (simp add: isWord_def)

lemma named_starts_matches:
  "length (spec_named_starts sql) = length (matchAll2 (\<lambda>c. c = CHR '':'') isWord sql)"
proof -
  have "length (map (spec_run_after isWord sql) (spec_named_starts sql)) =
        length (map tl (matchAll2 (\<lambda>c. c = CHR '':'') isWord sql))"
    unfolding spec_named_starts_def
    by (simp only: runs_matchAll2 [OF colon_not_word])
  then show ?thesis by simp
qed

text \<open>
  Below \<open>2^53\<close> the Number value of an integer is the integer itself, so two digit runs
  give the same Number exactly when they write the same integer (\<open>$1\<close> and \<open>$01\<close> do).
\<close>

lemma toNumber_exact: "n < 2 ^ 53 \<Longrightarrow> toNumber n = Fin (real n)"
  by (simp add: toNumber_def)

lemma toNumber_inj_small:
  "m < 2 ^ 53 \<Longrightarrow> n < 2 ^ 53 \<Longrightarrow> toNumber m = toNumber n \<longleftrightarrow> m = n"
  by (simp add: toNumber_def)

text \<open>The integer a digit run writes, digit by digit.\<close>

lemma decimal_positional:
  "decimal [] = 0"
  "decimal (ds @ [c]) = 10 * decimal ds + digitVal c"
  "map digitVal ''0123456789'' = [0, 1, 2, 3, 4, 5, 6, 7, 8, 9]"
  by (simp_all add: decimal_def digitVal_def)

lemma parseInt_run:
  assumes "i \<in> set (spec_token_starts p isDigit s)"
  shows "parseInt (spec_run_after isDigit s i) = toNumber (decimal (spec_run_after isDigit s i))"
proof -
  from assms have "Suc i < length s" and "isDigit (s ! Suc i)"
    by (auto simp: spec_token_starts_def)
  then have "spec_run_after isDigit s i \<noteq> []"
    by (simp add: spec_run_after_def takeWhile_eq_Nil_iff hd_drop_conv_nth)
  then show ?thesis
    by (simp add: parseInt_def spec_run_after_def)
qed

text \<open>The scan finds the tokens, and \<open>parseInt\<close> converts the integer each of them writes
  to a Number.\<close>

lemma dollar_matches_numbers:
  "map (\<lambda>m. parseInt (drop 1 m)) (matchAll2 (\<lambda>c. c = CHR ''$'') isDigit sql) =
   map toNumber (spec_dollar_numbers sql)"
proof -
  let ?starts = "spec_token_starts (\<lambda>c. c = CHR ''$'') isDigit sql"
  have "map (\<lambda>m. parseInt (drop 1 m)) (matchAll2 (\<lambda>c. c = CHR ''$'') isDigit sql) =
        map parseInt (map tl (matchAll2 (\<lambda>c. c = CHR ''$'') isDigit sql))"
    by (simp add: o_def drop_Suc)
  also have "\<dots> = map parseInt (map (spec_run_after isDigit sql) ?starts)"
    by (simp only: runs_matchAll2 [OF dollar_not_digit])
  also have "\<dots> = map toNumber (spec_dollar_numbers sql)"
    by (simp add: spec_dollar_numbers_def o_def parseInt_run)
  finally show ?thesis .
qed

text \<open>What the source computes for every text: in the \<open>$n\<close> style the integers are
  counted after their conversion to Numbers.\<close>

lemma countPlaceholders_exact:
  "countPlaceholders sql =
     (if CHR ''?'' \<in> set sql then count_list sql (CHR ''?'')
      else if spec_dollar_numbers sql \<noteq> [] then card (toNumber ` set (spec_dollar_numbers sql))
      else if spec_named_starts sql \<noteq> [] then length (spec_named_starts sql)
      else 0)"
proof -
  have named: "spec_named_starts sql = [] \<longleftrightarrow> matchAll2 (\<lambda>c. c = CHR '':'') isWord sql = []"
    using named_starts_matches [of sql] by (metis length_0_conv)
  have dollar: "matchAll2 (\<lambda>c. c = CHR ''$'') isDigit sql = [] \<longleftrightarrow> spec_dollar_numbers sql = []"
    using dollar_matches_numbers [of sql] by (metis map_is_Nil_conv)
  have "set (map (\<lambda>m. parseInt (drop 1 m)) (matchAll2 (\<lambda>c. c = CHR ''$'') isDigit sql)) =
        set (map toNumber (spec_dollar_numbers sql))"
    by (simp only: dollar_matches_numbers)
  then have numbers:
    "(\<lambda>m. parseInt (drop (Suc 0) m)) ` set (matchAll2 (\<lambda>c. c = CHR ''$'') isDigit sql) =
     toNumber ` set (spec_dollar_numbers sql)"
    by simp
  show ?thesis
    by (simp add: countPlaceholders_def match_question_def match_dollar_def match_named_def
        js_match_def length_matchAll1 matchAll1_Nil_iff numbers dollar named
        named_starts_matches)
qed

text \<open>The two integers of the text below differ, and both become the Number \<open>2^53\<close>.\<close>

lemma bits_2_53: "bits 9007199254740992 = 54" "bits 9007199254740993 = 54"
  by (simp_all add: bits.simps)

lemma toNumber_2_53:
  "toNumber 9007199254740992 = Fin 9007199254740992"
  "toNumber 9007199254740993 = Fin 9007199254740992"
  by (simp_all add: toNumber_def bits_2_53 Let_def)

lemma large_numbers:
  "spec_dollar_numbers ''SELECT $9007199254740993, $9007199254740992''
     = [9007199254740993, 9007199254740992]"
proof -
  have "spec_token_starts (\<lambda>c. c = CHR ''$'') isDigit
          ''SELECT $9007199254740993, $9007199254740992'' = [7, 26]"
    by code_simp
  then show ?thesis
    by (simp add: spec_dollar_numbers_def spec_run_after_def isDigit_def decimal_def
        digitVal_def)
qed

text \<open>
  C1 as stated fails from \<open>2^53\<close> on: the text below has no \<open>?\<close> and two \<open>$n\<close> tokens
  that write two distinct integers, and its placeholder count is 1.
\<close>

theorem countPlaceholders_large_numbers_coincide:
  "CHR ''?'' \<notin> set ''SELECT $9007199254740993, $9007199254740992''
   \<and> spec_dollar_numbers ''SELECT $9007199254740993, $9007199254740992''
       = [9007199254740993, 9007199254740992]
   \<and> card (set [9007199254740993, 9007199254740992 :: nat]) = 2
   \<and> countPlaceholders ''SELECT $9007199254740993, $9007199254740992'' = 1"
  by (simp add: countPlaceholders_exact large_numbers toNumber_2_53)

text \<open>
  C1, amended. The placeholder count is an ordered decision, the first style present
  winning: with at least one \<open>?\<close> in the text it is the number of \<open>?\<close> characters;
  otherwise, with at least one \<open>$n\<close> token, it is the number of distinct integers the
  tokens write, provided each of them is below \<open>2^53\<close>; otherwise, with at least one
  \<open>:name\<close> token, it is the number of such tokens (repeats counted each time); otherwise
  it is 0.
\<close>

theorem countPlaceholders_ordered_decision:
  "CHR ''?'' \<in> set sql \<or> (\<forall>n \<in> set (spec_dollar_numbers sql). n < 2 ^ 53) \<Longrightarrow>
   countPlaceholders sql =
     (if CHR ''?'' \<in> set sql then count_list sql (CHR ''?'')
      else if spec_dollar_numbers sql \<noteq> [] then card (set (spec_dollar_numbers sql))
      else if spec_named_starts sql \<noteq> [] then length (spec_named_starts sql)
      else 0)"
proof (cases "CHR ''?'' \<in> set sql")
  case True
  then show ?thesis
    by (simp add: countPlaceholders_exact)
next
  case False
  assume "CHR ''?'' \<in> set sql \<or> (\<forall>n \<in> set (spec_dollar_numbers sql). n < 2 ^ 53)"
  with False have "\<forall>n \<in> set (spec_dollar_numbers sql). n < 2 ^ 53"
    by simp
  then have "inj_on toNumber (set (spec_dollar_numbers sql))"
    by (auto simp: inj_on_def toNumber_inj_small)
  then have "card (toNumber ` set (spec_dollar_numbers sql)) = card (set (spec_dollar_numbers sql))"
    by (rule card_image)
  then show ?thesis
    by (simp add: countPlaceholders_exact)
qed

lemma repeated_dollar_numbers:
  "spec_dollar_numbers ''SELECT * FROM users WHERE id = $1 OR parent_id = $1'' = [1, 1]"
  "spec_dollar_numbers ''UPDATE users SET name = $1 WHERE id = $2 OR parent = $2'' = [1, 2, 2]"
  "spec_dollar_numbers ''SELECT * FROM t WHERE a = :a OR b = :a'' = []"
  "spec_named_starts ''SELECT * FROM t WHERE a = :a OR b = :a'' = [26, 36]"
  by code_simp+

theorem countPlaceholders_ordered_decision_witness:
  "countPlaceholders ''SELECT * FROM users WHERE id = $1 OR parent_id = $1'' = 1
   \<and> countPlaceholders ''UPDATE users SET name = $1 WHERE id = $2 OR parent = $2'' = 2
   \<and> countPlaceholders ''SELECT * FROM users WHERE id = ? AND name = ?'' = 2
   \<and> countPlaceholders ''SELECT * FROM t WHERE a = :a OR b = :a'' = 2"
  using countPlaceholders_ordered_decision
          [of "''SELECT * FROM users WHERE id = $1 OR parent_id = $1''"]
        countPlaceholders_ordered_decision
          [of "''UPDATE users SET name = $1 WHERE id = $2 OR parent = $2''"]
        countPlaceholders_ordered_decision
          [of "''SELECT * FROM users WHERE id = ? AND name = ?''"]
        countPlaceholders_ordered_decision
          [of "''SELECT * FROM t WHERE a = :a OR b = :a''"]
  by (simp add: repeated_dollar_numbers)

text \<open>The counts the test suite expects, the asymmetry between a repeated \<open>$n\<close> and a
  repeated \<open>:name\<close>, and the first style winning in a text that mixes them.\<close>

lemma countPlaceholders_examples:
  "countPlaceholders ''INSERT INTO users (name, email, age) VALUES (?, ?, ?)'' = 3"
  "countPlaceholders ''SELECT * FROM users WHERE name = :name AND email = :email'' = 2"
  "countPlaceholders ''SELECT * FROM t WHERE a = :a OR b = :a'' = 2"
  "countPlaceholders ''SELECT * FROM t WHERE a = ? AND b = $1 AND c = :c'' = 1"
  "countPlaceholders ''DELETE FROM users WHERE 1=1'' = 0"
  by code_simp+

lemma countPlaceholders_numbered_examples:
  "countPlaceholders ''SELECT * FROM users WHERE id = $1 OR parent_id = $1'' = 1"
  "countPlaceholders ''UPDATE users SET name = $1 WHERE id = $2 OR parent = $2'' = 2"
  "countPlaceholders ''SELECT $1, $01'' = 1"
  by (simp_all add: countPlaceholders_def match_question_def match_dollar_def js_match_def
      isDigit_def parseInt_def decimal_def digitVal_def toNumber_def)

section \<open>Properties of \<open>validateParams\<close>\<close>

lemma checkEmpty_ok:
  "checkEmpty rt sql ps i = Inr True \<longleftrightarrow>
     (\<forall>j. i \<le> j \<and> j < length ps \<longrightarrow> \<not> isEmptyValue (ps ! j))"
proof (induction rt sql ps i rule: checkEmpty.induct)
  case (1 rt sql ps i)
  show ?case
  proof (cases "i < length ps")
    case False
    then show ?thesis by (subst checkEmpty.simps) auto
  next
    case True
    show ?thesis
    proof (cases "isEmptyValue (ps ! i)")
      case True
      with \<open>i < length ps\<close> show ?thesis
        by (subst checkEmpty.simps) auto
    next
      case False
      have "(\<forall>j. i \<le> j \<and> j < length ps \<longrightarrow> \<not> isEmptyValue (ps ! j)) \<longleftrightarrow>
            (\<forall>j. Suc i \<le> j \<and> j < length ps \<longrightarrow> \<not> isEmptyValue (ps ! j))"
        using False by (metis Suc_leI le_neq_implies_less Suc_leD)
      with 1 True False show ?thesis
        by (subst checkEmpty.simps) simp
    qed
  qed
qed

lemma checkEmpty_first:
  "i \<le> k \<Longrightarrow> k < length ps \<Longrightarrow> isEmptyValue (ps ! k) \<Longrightarrow>
   (\<forall>j. i \<le> j \<and> j < k \<longrightarrow> \<not> isEmptyValue (ps ! j)) \<Longrightarrow>
   checkEmpty rt sql ps i =
     Inl \<lparr>message = ''Invalid request parameters'',
          details = ''Parameter at index '' @ showNat k @ '' is empty/null/undefined. SQL: ''
            @ sql @ '', Params: '' @ JSON_stringify rt (JArr ps),
          type = ''VALIDATION_EMPTY''\<rparr>"
proof (induction rt sql ps i rule: checkEmpty.induct)
  case (1 rt sql ps i)
  show ?case
  proof (cases "i = k")
    case True
    with 1 show ?thesis
      by (subst checkEmpty.simps) (simp add: new_DatabaseError_def)
  next
    case False
    with 1 have lt: "i < k" and ne: "\<not> isEmptyValue (ps ! i)" and il: "i < length ps"
      by auto
    from lt have "Suc i \<le> k" by simp
    moreover have "\<forall>j. Suc i \<le> j \<and> j < k \<longrightarrow> \<not> isEmptyValue (ps ! j)"
      using 1(5) by auto
    ultimately have "checkEmpty rt sql ps (Suc i) =
        Inl \<lparr>message = ''Invalid request parameters'',
          details = ''Parameter at index '' @ showNat k @ '' is empty/null/undefined. SQL: ''
            @ sql @ '', Params: '' @ JSON_stringify rt (JArr ps),
          type = ''VALIDATION_EMPTY''\<rparr>"
      using 1 il ne by blast
    with il ne show ?thesis
      by (subst checkEmpty.simps) simp
  qed
qed

lemma isEmptyValue_set:
  "(\<forall>j. j < length ps \<longrightarrow> \<not> isEmptyValue (ps ! j)) \<longleftrightarrow>
   (\<forall>v \<in> set ps. v \<noteq> JNull \<and> v \<noteq> JUndefined \<and> v \<noteq> JStr [])"
  by (auto simp: isEmptyValue_def all_set_conv_all_nth)

text \<open>
  C2. Validation succeeds exactly when the normalised parameter list is as long as the
  placeholder count and none of its elements is \<open>null\<close>, \<open>undefined\<close> or the empty
  string. A count mismatch fails with type \<open>VALIDATION_MISMATCH\<close>; with matching counts
  the first offending element, at index \<open>i\<close>, fails with type \<open>VALIDATION_EMPTY\<close> and a
  detail that names \<open>i\<close>. The user message is "Invalid request parameters" both times.
\<close>

theorem validateParams_outcome:
  "(validateParams rt sql params = Inr True \<longleftrightarrow>
      length (paramArray params) = countPlaceholders sql \<and>
      (\<forall>v \<in> set (paramArray params). v \<noteq> JNull \<and> v \<noteq> JUndefined \<and> v \<noteq> JStr []))
   \<and> (length (paramArray params) \<noteq> countPlaceholders sql \<longrightarrow>
        (\<exists>d. validateParams rt sql params =
               Inl \<lparr>message = ''Invalid request parameters'', details = d,
                    type = ''VALIDATION_MISMATCH''\<rparr>))
   \<and> (\<forall>i. length (paramArray params) = countPlaceholders sql \<and> i < length (paramArray params)
          \<and> isEmptyValue (paramArray params ! i)
          \<and> (\<forall>j. j < i \<longrightarrow> \<not> isEmptyValue (paramArray params ! j)) \<longrightarrow>
        validateParams rt sql params =
          Inl \<lparr>message = ''Invalid request parameters'',
               details = ''Parameter at index '' @ showNat i
                 @ '' is empty/null/undefined. SQL: '' @ sql
                 @ '', Params: '' @ JSON_stringify rt (JArr (paramArray params)),
               type = ''VALIDATION_EMPTY''\<rparr>)"
proof (intro conjI allI impI)
  show "validateParams rt sql params = Inr True \<longleftrightarrow>
      length (paramArray params) = countPlaceholders sql \<and>
      (\<forall>v \<in> set (paramArray params). v \<noteq> JNull \<and> v \<noteq> JUndefined \<and> v \<noteq> JStr [])"
    using checkEmpty_ok [of rt sql "paramArray params" 0]
      isEmptyValue_set [of "paramArray params"]
    by (auto simp: validateParams_def Let_def)
next
  assume "length (paramArray params) \<noteq> countPlaceholders sql"
  then show "\<exists>d. validateParams rt sql params =
               Inl \<lparr>message = ''Invalid request parameters'', details = d,
                    type = ''VALIDATION_MISMATCH''\<rparr>"
    by (simp add: validateParams_def Let_def new_DatabaseError_def)
next
  fix i
  assume a: "length (paramArray params) = countPlaceholders sql \<and> i < length (paramArray params)
          \<and> isEmptyValue (paramArray params ! i)
          \<and> (\<forall>j. j < i \<longrightarrow> \<not> isEmptyValue (paramArray params ! j))"
  then have "checkEmpty rt sql (paramArray params) 0 =
          Inl \<lparr>message = ''Invalid request parameters'',
               details = ''Parameter at index '' @ showNat i
                 @ '' is empty/null/undefined. SQL: '' @ sql
                 @ '', Params: '' @ JSON_stringify rt (JArr (paramArray params)),
               type = ''VALIDATION_EMPTY''\<rparr>"
    by (intro checkEmpty_first) auto
  with a show "validateParams rt sql params =
          Inl \<lparr>message = ''Invalid request parameters'',
               details = ''Parameter at index '' @ showNat i
                 @ '' is empty/null/undefined. SQL: '' @ sql
                 @ '', Params: '' @ JSON_stringify rt (JArr (paramArray params)),
               type = ''VALIDATION_EMPTY''\<rparr>"
    by (simp add: validateParams_def Let_def)
qed

lemma count_one_question: "countPlaceholders ''SELECT * FROM users WHERE id = ?'' = 1"
  by code_simp

lemma count_two_questions:
  "countPlaceholders ''SELECT * FROM users WHERE id = ? AND name = ?'' = 2"
  by code_simp

lemma showNat_1: "showNat 1 = ''1''" by code_simp
lemma showNat_2: "showNat 2 = ''2''" by code_simp
lemma showNat_Suc_0: "showNat (Suc 0) = ''1''" using showNat_1 by simp

theorem validateParams_outcome_witness:
  "validateParams example_runtime ''SELECT * FROM users WHERE id = ?'' (JArr [JNum (Fin 1)])
     = Inr True
   \<and> validateParams example_runtime ''SELECT * FROM users WHERE id = ? AND name = ?''
       (JArr [JNum (Fin 1)])
     = Inl \<lparr>message = ''Invalid request parameters'',
            details = ''Placeholder count mismatch. Expected 2 parameters but got 1. SQL: SELECT * FROM users WHERE id = ? AND name = ?, Params: [...]'',
            type = ''VALIDATION_MISMATCH''\<rparr>
   \<and> validateParams example_runtime ''SELECT * FROM users WHERE id = ? AND name = ?''
       (JArr [JNum (Fin 1), JStr []])
     = Inl \<lparr>message = ''Invalid request parameters'',
            details = ''Parameter at index 1 is empty/null/undefined. SQL: SELECT * FROM users WHERE id = ? AND name = ?, Params: [...]'',
            type = ''VALIDATION_EMPTY''\<rparr>"
proof (intro conjI)
  show "validateParams example_runtime ''SELECT * FROM users WHERE id = ?'' (JArr [JNum (Fin 1)])
     = Inr True"
    using validateParams_outcome [of example_runtime "''SELECT * FROM users WHERE id = ?''"
        "JArr [JNum (Fin 1)]"]
    by (simp add: paramArray_def count_one_question)
next
  show "validateParams example_runtime ''SELECT * FROM users WHERE id = ? AND name = ?''
       (JArr [JNum (Fin 1)])
     = Inl \<lparr>message = ''Invalid request parameters'',
            details = ''Placeholder count mismatch. Expected 2 parameters but got 1. SQL: SELECT * FROM users WHERE id = ? AND name = ?, Params: [...]'',
            type = ''VALIDATION_MISMATCH''\<rparr>"
    by (simp add: validateParams_def paramArray_def count_two_questions new_DatabaseError_def
        example_runtime_def showNat_Suc_0 showNat_2)
next
  have "validateParams example_runtime ''SELECT * FROM users WHERE id = ? AND name = ?''
       (JArr [JNum (Fin 1), JStr []])
     = Inl \<lparr>message = ''Invalid request parameters'',
            details = ''Parameter at index '' @ showNat 1
                 @ '' is empty/null/undefined. SQL: '' @ ''SELECT * FROM users WHERE id = ? AND name = ?''
                 @ '', Params: '' @ JSON_stringify example_runtime (JArr (paramArray (JArr [JNum (Fin 1), JStr []]))),
            type = ''VALIDATION_EMPTY''\<rparr>"
    using validateParams_outcome [of example_runtime
        "''SELECT * FROM users WHERE id = ? AND name = ?''" "JArr [JNum (Fin 1), JStr []]"]
    by (simp add: paramArray_def count_two_questions isEmptyValue_def)
  then show "validateParams example_runtime ''SELECT * FROM users WHERE id = ? AND name = ?''
       (JArr [JNum (Fin 1), JStr []])
     = Inl \<lparr>message = ''Invalid request parameters'',
            details = ''Parameter at index 1 is empty/null/undefined. SQL: SELECT * FROM users WHERE id = ? AND name = ?, Params: [...]'',
            type = ''VALIDATION_EMPTY''\<rparr>"
    by (simp add: showNat_Suc_0 example_runtime_def)
qed

section \<open>Properties of the query operations\<close>

lemma io_bind_return [simp]: "io_bind m io_return = m"
  by (auto simp: io_bind_def io_return_def fun_eq_iff split: prod.splits sum.splits)


text \<open>The shape shared by the four operations: validate, call, catch.\<close>

lemma guarded_call:
  "io_catch (io_bind (io_validate rt sql params) (\<lambda>_. m)) (catch_block rt sql params) w =
     (case validateParams rt sql params of
        Inl e \<Rightarrow> (Inl (DbError e), w)
      | Inr ok \<Rightarrow>
         (case m w of
            (Inr r, w') \<Rightarrow> (Inr r, w')
          | (Inl (DbError e), w') \<Rightarrow> (Inl (DbError e), w')
          | (Inl (OtherError e), w') \<Rightarrow>
              (Inl (DbError (wrapDatabaseError rt e sql params)), w')))"
  by (simp add: io_catch_def io_bind_def io_validate_def catch_block_def io_throw_def
      io_return_def split: sum.splits prod.splits thrown.splits)

lemma query_unfold:
  "query rt W sql params w =
     (case validateParams rt sql (defaultParams params) of
        Inl e \<Rightarrow> (Inl (DbError e), w)
      | Inr ok \<Rightarrow>
         (case adapter_executeQuery (adapter W) (connection W) sql (defaultParams params) w of
            (Inr r, w') \<Rightarrow> (Inr r, w')
          | (Inl (DbError e), w') \<Rightarrow> (Inl (DbError e), w')
          | (Inl (OtherError e), w') \<Rightarrow>
              (Inl (DbError (wrapDatabaseError rt e sql (defaultParams params))), w')))"
  by (simp add: query_def Let_def guarded_call)

lemma defaultParams_idem [simp]: "defaultParams (defaultParams p) = defaultParams p"
  by (simp add: defaultParams_def)

lemma query_invalid:
  "validateParams rt sql (defaultParams params) = Inl e \<Longrightarrow>
   query rt W sql params w = (Inl (DbError e), w)"
  by (simp add: query_unfold)

lemma query_defaultParams [simp]: "query rt W sql (defaultParams p) = query rt W sql p"
  by (simp add: query_def)

text \<open>With the specialised method: validate, call it, catch.\<close>

lemma getOne_specialised:
  "adapter_getOne (adapter W) = Some f \<Longrightarrow>
   getOne rt W sql params w =
     (case validateParams rt sql (defaultParams params) of
        Inl e \<Rightarrow> (Inl (DbError e), w)
      | Inr ok \<Rightarrow>
         (case f (connection W) sql (defaultParams params) w of
            (Inr r, w') \<Rightarrow> (Inr r, w')
          | (Inl (DbError e), w') \<Rightarrow> (Inl (DbError e), w')
          | (Inl (OtherError e), w') \<Rightarrow>
              (Inl (DbError (wrapDatabaseError rt e sql (defaultParams params))), w')))"
  by (simp add: getOne_def Let_def guarded_call)

lemma get_specialised:
  "adapter_get (adapter W) = Some f \<Longrightarrow>
   get rt W sql params w =
     (case validateParams rt sql (defaultParams params) of
        Inl e \<Rightarrow> (Inl (DbError e), w)
      | Inr ok \<Rightarrow>
         (case f (connection W) sql (defaultParams params) w of
            (Inr r, w') \<Rightarrow> (Inr r, w')
          | (Inl (DbError e), w') \<Rightarrow> (Inl (DbError e), w')
          | (Inl (OtherError e), w') \<Rightarrow>
              (Inl (DbError (wrapDatabaseError rt e sql (defaultParams params))), w')))"
  by (simp add: get_def Let_def guarded_call)

lemma exec_specialised:
  "adapter_exec (adapter W) = Some f \<Longrightarrow>
   exec rt W sql params w =
     (case validateParams rt sql (defaultParams params) of
        Inl e \<Rightarrow> (Inl (DbError e), w)
      | Inr ok \<Rightarrow>
         (case f (connection W) sql (defaultParams params) w of
            (Inr r, w') \<Rightarrow> (Inr r, w')
          | (Inl (DbError e), w') \<Rightarrow> (Inl (DbError e), w')
          | (Inl (OtherError e), w') \<Rightarrow>
              (Inl (DbError (wrapDatabaseError rt e sql (defaultParams params))), w')))"
  by (simp add: exec_def Let_def guarded_call)

text \<open>Without it: \<open>query\<close>, then the post-processing of its result.\<close>

lemma getOne_fallback:
  "adapter_getOne (adapter W) = None \<Longrightarrow>
   getOne rt W sql params w =
     (case query rt W sql params w of
        (Inl e, w') \<Rightarrow> (Inl e, w')
      | (Inr result, w') \<Rightarrow>
          (Inr (case result of JArr xs \<Rightarrow> js_or (index0 xs) JNull | _ \<Rightarrow> JNull), w'))"
  by (simp add: getOne_def Let_def io_bind_def io_return_def)

lemma get_fallback:
  "adapter_get (adapter W) = None \<Longrightarrow>
   get rt W sql params w =
     (case query rt W sql params w of
        (Inl e, w') \<Rightarrow> (Inl e, w')
      | (Inr result, w') \<Rightarrow> (Inr (if isArray result then result else JArr []), w'))"
  by (simp add: get_def Let_def io_bind_def io_return_def)

lemma exec_fallback:
  "adapter_exec (adapter W) = None \<Longrightarrow> exec rt W sql params w = query rt W sql params w"
  by (simp add: exec_def Let_def)

lemma getOne_invalid:
  "validateParams rt sql (defaultParams params) = Inl e \<Longrightarrow>
   getOne rt W sql params w = (Inl (DbError e), w)"
  by (cases "adapter_getOne (adapter W)")
     (simp_all add: getOne_specialised getOne_fallback query_invalid)

lemma get_invalid:
  "validateParams rt sql (defaultParams params) = Inl e \<Longrightarrow>
   get rt W sql params w = (Inl (DbError e), w)"
  by (cases "adapter_get (adapter W)")
     (simp_all add: get_specialised get_fallback query_invalid)

lemma exec_invalid:
  "validateParams rt sql (defaultParams params) = Inl e \<Longrightarrow>
   exec rt W sql params w = (Inl (DbError e), w)"
  by (cases "adapter_exec (adapter W)")
     (simp_all add: exec_specialised exec_fallback query_invalid)

lemma checkEmpty_type:
  "checkEmpty rt sql ps i = Inl e \<Longrightarrow>
   type e = ''VALIDATION_EMPTY'' \<and> message e = ''Invalid request parameters''"
proof (induction rt sql ps i rule: checkEmpty.induct)
  case (1 rt sql ps i)
  from "1.prems" show ?case
    by (subst (asm) checkEmpty.simps)
       (auto simp: new_DatabaseError_def split: if_splits dest: "1.IH")
qed

lemma validateParams_type:
  "validateParams rt sql params = Inl e \<Longrightarrow>
   (type e = ''VALIDATION_MISMATCH'' \<or> type e = ''VALIDATION_EMPTY'')
   \<and> message e = ''Invalid request parameters''"
  by (auto simp: validateParams_def Let_def new_DatabaseError_def split: if_splits
      dest: checkEmpty_type)

text \<open>
  C3. When validation of the parameters fails, \<open>query\<close>, \<open>getOne\<close>, \<open>get\<close> and \<open>exec\<close>
  raise the validation error itself (type \<open>VALIDATION_MISMATCH\<close> or
  \<open>VALIDATION_EMPTY\<close>), and no method of a mock adapter is called, whichever methods
  it has: the list of recorded calls is what it was before, empty if it was empty.
\<close>

theorem invalid_params_never_reach_adapter:
  "validateParams rt sql (defaultParams params) = Inl e \<Longrightarrow>
   (type e = ''VALIDATION_MISMATCH'' \<or> type e = ''VALIDATION_EMPTY'')
   \<and> query rt \<lparr>connection = c, adapter = mockAdapter executeQuery' getOne' get' exec'\<rparr>
        sql params (calls, d) = (Inl (DbError e), (calls, d))
   \<and> getOne rt \<lparr>connection = c, adapter = mockAdapter executeQuery' getOne' get' exec'\<rparr>
        sql params (calls, d) = (Inl (DbError e), (calls, d))
   \<and> get rt \<lparr>connection = c, adapter = mockAdapter executeQuery' getOne' get' exec'\<rparr>
        sql params (calls, d) = (Inl (DbError e), (calls, d))
   \<and> exec rt \<lparr>connection = c, adapter = mockAdapter executeQuery' getOne' get' exec'\<rparr>
        sql params (calls, d) = (Inl (DbError e), (calls, d))"
proof -
  assume invalid: "validateParams rt sql (defaultParams params) = Inl e"
  let ?W = "\<lparr>connection = c, adapter = mockAdapter executeQuery' getOne' get' exec'\<rparr>"
  from invalid have "type e = ''VALIDATION_MISMATCH'' \<or> type e = ''VALIDATION_EMPTY''"
    by (simp add: validateParams_type)
  moreover from invalid
  have "query rt ?W sql params (calls, d) = (Inl (DbError e), (calls, d))"
    by (rule query_invalid)
  moreover from invalid
  have "getOne rt ?W sql params (calls, d) = (Inl (DbError e), (calls, d))"
    by (rule getOne_invalid)
  moreover from invalid
  have "get rt ?W sql params (calls, d) = (Inl (DbError e), (calls, d))"
    by (rule get_invalid)
  moreover from invalid
  have "exec rt ?W sql params (calls, d) = (Inl (DbError e), (calls, d))"
    by (rule exec_invalid)
  ultimately show ?thesis
    by simp
qed


lemma mismatch_example:
  "validateParams example_runtime ''SELECT * FROM users WHERE id = ? AND name = ?''
       (JArr [JNum (Fin 1)])
     = Inl \<lparr>message = ''Invalid request parameters'',
            details = ''Placeholder count mismatch. Expected 2 parameters but got 1. SQL: SELECT * FROM users WHERE id = ? AND name = ?, Params: [...]'',
            type = ''VALIDATION_MISMATCH''\<rparr>"
  by (simp add: validateParams_def paramArray_def count_two_questions new_DatabaseError_def
        example_runtime_def showNat_Suc_0 showNat_2)

theorem invalid_params_never_reach_adapter_witness:
  "query example_runtime \<lparr>connection = (), adapter = mockAdapter no_rows None None None\<rparr>
     ''SELECT * FROM users WHERE id = ? AND name = ?'' (JArr [JNum (Fin 1)]) ([], ())
   = (Inl (DbError \<lparr>message = ''Invalid request parameters'',
            details = ''Placeholder count mismatch. Expected 2 parameters but got 1. SQL: SELECT * FROM users WHERE id = ? AND name = ?, Params: [...]'',
            type = ''VALIDATION_MISMATCH''\<rparr>), ([], ()))"
  using invalid_params_never_reach_adapter [of example_runtime
      "''SELECT * FROM users WHERE id = ? AND name = ?''" "JArr [JNum (Fin 1)]" _
      "()" no_rows None None None "[]" "()"] mismatch_example
  by (simp add: defaultParams_def)

section \<open>Properties of \<open>wrapDatabaseError\<close>\<close>

lemma classify_first_match:
  "classify error =
     spec_first_match error spec_rule_table
       (''Something went wrong. Please try again.'', ''DB_UNKNOWN'')"
  by (simp add: classify_def spec_rule_table_def)

lemma classify_duplicate:
  "spec_duplicate_code error \<Longrightarrow>
   classify error = (''This record already exists'', ''DB_DUPLICATE'')"
  by (auto simp: classify_def spec_duplicate_code_def)

lemma wrapDatabaseError_classify:
  "message (wrapDatabaseError rt error sql params) = fst (classify error)
   \<and> type (wrapDatabaseError rt error sql params) = snd (classify error)"
  by (simp add: wrapDatabaseError_def new_DatabaseError_def Let_def split: prod.splits)

lemma query_rejected:
  "validateParams rt sql (defaultParams params) = Inr ok \<Longrightarrow>
   adapter_executeQuery (adapter W) (connection W) sql (defaultParams params) w
     = (Inl (OtherError err), w') \<Longrightarrow>
   query rt W sql params w =
     (Inl (DbError (wrapDatabaseError rt err sql (defaultParams params))), w')"
  by (simp add: query_unfold)

lemma getOne_rejected:
  "validateParams rt sql (defaultParams params) = Inr ok \<Longrightarrow>
   invoked (adapter W) (adapter_getOne (adapter W)) (connection W) sql (defaultParams params) w
     = (Inl (OtherError err), w') \<Longrightarrow>
   getOne rt W sql params w =
     (Inl (DbError (wrapDatabaseError rt err sql (defaultParams params))), w')"
  by (cases "adapter_getOne (adapter W)")
     (simp_all add: invoked_def getOne_specialised getOne_fallback query_unfold)

lemma get_rejected:
  "validateParams rt sql (defaultParams params) = Inr ok \<Longrightarrow>
   invoked (adapter W) (adapter_get (adapter W)) (connection W) sql (defaultParams params) w
     = (Inl (OtherError err), w') \<Longrightarrow>
   get rt W sql params w =
     (Inl (DbError (wrapDatabaseError rt err sql (defaultParams params))), w')"
  by (cases "adapter_get (adapter W)")
     (simp_all add: invoked_def get_specialised get_fallback query_unfold)

lemma exec_rejected:
  "validateParams rt sql (defaultParams params) = Inr ok \<Longrightarrow>
   invoked (adapter W) (adapter_exec (adapter W)) (connection W) sql (defaultParams params) w
     = (Inl (OtherError err), w') \<Longrightarrow>
   exec rt W sql params w =
     (Inl (DbError (wrapDatabaseError rt err sql (defaultParams params))), w')"
  by (cases "adapter_exec (adapter W)")
     (simp_all add: invoked_def exec_specialised exec_fallback query_unfold)

text \<open>
  C5. The user message and the error type come from the ordered rule table, the first
  matching rule winning, and an error no rule matches is \<open>DB_UNKNOWN\<close> with the message
  "Something went wrong. Please try again.". When the parameters are valid and the
  adapter method an operation invokes rejects with an error whose code is a
  duplicate-key code (\<open>ER_DUP_ENTRY\<close>, \<open>SQLITE_CONSTRAINT\<close>, \<open>23505\<close>), then \<open>query\<close>,
  \<open>getOne\<close>, \<open>get\<close> and \<open>exec\<close> raise a \<open>DatabaseError\<close> of type \<open>DB_DUPLICATE\<close>
  with the message "This record already exists", whatever the adapter.
\<close>

theorem duplicate_key_classified:
  "(classify error =
      spec_first_match error spec_rule_table
        (''Something went wrong. Please try again.'', ''DB_UNKNOWN''))
   \<and> ((\<forall>rule \<in> set spec_rule_table. \<not> fst rule error) \<longrightarrow>
        message (wrapDatabaseError rt error sql params) = ''Something went wrong. Please try again.''
        \<and> type (wrapDatabaseError rt error sql params) = ''DB_UNKNOWN'')
   \<and> (spec_duplicate_code err \<and> validateParams rt sql (defaultParams params) = Inr ok \<longrightarrow>
        (adapter_executeQuery (adapter W) (connection W) sql (defaultParams params) w
           = (Inl (OtherError err), w') \<longrightarrow>
         (\<exists>e. query rt W sql params w = (Inl (DbError e), w')
              \<and> type e = ''DB_DUPLICATE'' \<and> message e = ''This record already exists''))
        \<and> (invoked (adapter W) (adapter_getOne (adapter W)) (connection W) sql
              (defaultParams params) w = (Inl (OtherError err), w') \<longrightarrow>
           (\<exists>e. getOne rt W sql params w = (Inl (DbError e), w')
              \<and> type e = ''DB_DUPLICATE'' \<and> message e = ''This record already exists''))
        \<and> (invoked (adapter W) (adapter_get (adapter W)) (connection W) sql
              (defaultParams params) w = (Inl (OtherError err), w') \<longrightarrow>
           (\<exists>e. get rt W sql params w = (Inl (DbError e), w')
              \<and> type e = ''DB_DUPLICATE'' \<and> message e = ''This record already exists''))
        \<and> (invoked (adapter W) (adapter_exec (adapter W)) (connection W) sql
              (defaultParams params) w = (Inl (OtherError err), w') \<longrightarrow>
           (\<exists>e. exec rt W sql params w = (Inl (DbError e), w')
              \<and> type e = ''DB_DUPLICATE'' \<and> message e = ''This record already exists'')))"
proof (intro conjI impI)
  show "classify error =
      spec_first_match error spec_rule_table
        (''Something went wrong. Please try again.'', ''DB_UNKNOWN'')"
    by (rule classify_first_match)
next
  assume "\<forall>rule \<in> set spec_rule_table. \<not> fst rule error"
  then have "classify error = (''Something went wrong. Please try again.'', ''DB_UNKNOWN'')"
    by (simp add: classify_def spec_rule_table_def)
  then show "message (wrapDatabaseError rt error sql params)
      = ''Something went wrong. Please try again.''"
    and "type (wrapDatabaseError rt error sql params) = ''DB_UNKNOWN''"
    by (simp_all add: wrapDatabaseError_classify)
next
  assume a: "spec_duplicate_code err \<and> validateParams rt sql (defaultParams params) = Inr ok"
  then have dup: "type (wrapDatabaseError rt err sql (defaultParams params)) = ''DB_DUPLICATE''
      \<and> message (wrapDatabaseError rt err sql (defaultParams params))
          = ''This record already exists''"
    by (simp add: wrapDatabaseError_classify classify_duplicate)
  {
    assume "adapter_executeQuery (adapter W) (connection W) sql (defaultParams params) w
           = (Inl (OtherError err), w')"
    with a dup show "\<exists>e. query rt W sql params w = (Inl (DbError e), w')
              \<and> type e = ''DB_DUPLICATE'' \<and> message e = ''This record already exists''"
      by (simp add: query_rejected)
  next
    assume "invoked (adapter W) (adapter_getOne (adapter W)) (connection W) sql
              (defaultParams params) w = (Inl (OtherError err), w')"
    with a dup show "\<exists>e. getOne rt W sql params w = (Inl (DbError e), w')
              \<and> type e = ''DB_DUPLICATE'' \<and> message e = ''This record already exists''"
      by (simp add: getOne_rejected)
  next
    assume "invoked (adapter W) (adapter_get (adapter W)) (connection W) sql
              (defaultParams params) w = (Inl (OtherError err), w')"
    with a dup show "\<exists>e. get rt W sql params w = (Inl (DbError e), w')
              \<and> type e = ''DB_DUPLICATE'' \<and> message e = ''This record already exists''"
      by (simp add: get_rejected)
  next
    assume "invoked (adapter W) (adapter_exec (adapter W)) (connection W) sql
              (defaultParams params) w = (Inl (OtherError err), w')"
    with a dup show "\<exists>e. exec rt W sql params w = (Inl (DbError e), w')
              \<and> type e = ''DB_DUPLICATE'' \<and> message e = ''This record already exists''"
      by (simp add: exec_rejected)
  }
qed

lemma count_insert_email: "countPlaceholders ''INSERT INTO users (email) VALUES (?)'' = 1"
  by code_simp

lemma insert_email_valid:
  "validateParams example_runtime ''INSERT INTO users (email) VALUES (?)''
     (JArr [JStr ''test@example.com'']) = Inr True"
  by (simp add: validateParams_def paramArray_def count_insert_email checkEmpty.simps
      isEmptyValue_def)

theorem duplicate_key_classified_witness:
  "(\<exists>e. query example_runtime
          \<lparr>connection = (), adapter = mockAdapter rejects_dup_entry None None None\<rparr>
          ''INSERT INTO users (email) VALUES (?)'' (JArr [JStr ''test@example.com'']) ([], ())
        = (Inl (DbError e),
           ([Call ''executeQuery'' [JStr ''INSERT INTO users (email) VALUES (?)'',
                                    JArr [JStr ''test@example.com'']]], ()))
        \<and> type e = ''DB_DUPLICATE'' \<and> message e = ''This record already exists'')
   \<and> type (wrapDatabaseError example_runtime
        \<lparr>error_code = None, error_message = Some ''Some unknown error'', error_stack = None\<rparr>
        ''INSERT INTO users (email) VALUES (?)'' (JArr [JStr ''test@example.com''])) = ''DB_UNKNOWN''"
proof -
  let ?W = "\<lparr>connection = (), adapter = mockAdapter rejects_dup_entry None None None\<rparr>"
  let ?sql = "''INSERT INTO users (email) VALUES (?)''"
  let ?params = "JArr [JStr ''test@example.com'']"
  let ?unknown =
    "\<lparr>error_code = None, error_message = Some ''Some unknown error'', error_stack = None\<rparr>"
  have call: "adapter_executeQuery (adapter ?W) (connection ?W) ?sql (defaultParams ?params)
      ([], ()) = (Inl (OtherError dup_entry_error),
        ([Call ''executeQuery'' [JStr ?sql, ?params]], ()))"
    by (simp add: mockAdapter_def mock_method_def spy_def rejects_dup_entry_def io_throw_def
        defaultParams_def)
  have dup: "spec_duplicate_code dup_entry_error"
    by (simp add: spec_duplicate_code_def dup_entry_error_def)
  have valid: "validateParams example_runtime ?sql (defaultParams ?params) = Inr True"
    by (simp add: defaultParams_def insert_email_valid)
  have unmatched: "\<forall>rule \<in> set spec_rule_table. \<not> fst rule ?unknown"
    by (simp add: spec_rule_table_def message_includes_def)
  from duplicate_key_classified [where error = ?unknown and rt = example_runtime
      and err = dup_entry_error and sql = ?sql and params = ?params and ok = True and W = ?W
      and w = "([], ())" and w' = "([Call ''executeQuery'' [JStr ?sql, ?params]], ())"]
    call dup valid unmatched
  show ?thesis by simp
qed

section \<open>What the adapter is given\<close>

lemma query_mock_calls:
  "validateParams rt sql (defaultParams params) = Inr ok \<Longrightarrow>
   snd (query rt \<lparr>connection = c, adapter = mockAdapter executeQuery' getOne' get' exec'\<rparr>
          sql params (calls, d))
     = (calls @ [Call ''executeQuery'' [JStr sql, defaultParams params]],
        snd (executeQuery' c sql (defaultParams params) d))"
  by (simp add: query_unfold mockAdapter_def mock_method_def spy_def
      split: prod.splits sum.splits thrown.splits)

lemma not_isArray_neq: "\<not> isArray v \<Longrightarrow> v \<noteq> JArr xs"
  by (cases v) auto

text \<open>
  C10. With valid parameters, \<open>query\<close> calls \<open>executeQuery\<close> of a mock adapter once
  more, with the SQL text and the \<open>params\<close> argument as the caller gave it (the default
  \<open>[]\<close> when the argument is \<open>undefined\<close>), not with the list validation built from it:
  a value that is not an array, and not \<open>undefined\<close>, arrives as that bare value, which
  differs from the one-element list.
\<close>

theorem adapter_receives_original_params:
  "validateParams rt sql (defaultParams params) = Inr ok \<Longrightarrow>
   fst (snd (query rt \<lparr>connection = c, adapter = mockAdapter executeQuery' getOne' get' exec'\<rparr>
               sql params (calls, d)))
     = calls @ [Call ''executeQuery'' [JStr sql, defaultParams params]]
   \<and> (params \<noteq> JUndefined \<longrightarrow> defaultParams params = params)
   \<and> (\<not> isArray params \<and> params \<noteq> JUndefined \<longrightarrow>
        fst (snd (query rt
                    \<lparr>connection = c, adapter = mockAdapter executeQuery' getOne' get' exec'\<rparr>
                    sql params (calls, d)))
          = calls @ [Call ''executeQuery'' [JStr sql, params]]
        \<and> params \<noteq> JArr (paramArray params))"
proof -
  assume valid: "validateParams rt sql (defaultParams params) = Inr ok"
  let ?W = "\<lparr>connection = c, adapter = mockAdapter executeQuery' getOne' get' exec'\<rparr>"
  from valid have forwarded:
    "fst (snd (query rt ?W sql params (calls, d)))
       = calls @ [Call ''executeQuery'' [JStr sql, defaultParams params]]"
    by (simp add: query_mock_calls)
  have original: "params \<noteq> JUndefined \<longrightarrow> defaultParams params = params"
    by (simp add: defaultParams_def)
  have bare: "\<not> isArray params \<longrightarrow> params \<noteq> JArr (paramArray params)"
    by (auto dest: not_isArray_neq)
  from forwarded original bare show ?thesis
    by auto
qed

lemma scalar_valid:
  "validateParams example_runtime ''SELECT * FROM users WHERE id = ?'' (JNum (Fin 1)) = Inr True"
  by (simp add: validateParams_def paramArray_def count_one_question checkEmpty.simps
      isEmptyValue_def)

theorem adapter_receives_original_params_witness:
  "fst (snd (query example_runtime
               \<lparr>connection = (), adapter = mockAdapter no_rows None None None\<rparr>
               ''SELECT * FROM users WHERE id = ?'' (JNum (Fin 1)) ([], ())))
     = [Call ''executeQuery'' [JStr ''SELECT * FROM users WHERE id = ?'', JNum (Fin 1)]]
   \<and> paramArray (JNum (Fin 1)) = [JNum (Fin 1)]"
  using adapter_receives_original_params [where rt = example_runtime
      and sql = "''SELECT * FROM users WHERE id = ?''" and params = "JNum (Fin 1)"
      and ok = True and c = "()" and executeQuery' = no_rows and getOne' = None
      and get' = None and exec' = None and calls = "[]" and d = "()"] scalar_valid
  by (simp add: defaultParams_def paramArray_def)

lemma showNat_0: "showNat 0 = ''0''" by code_simp

lemma paramArray_cases:
  "paramArray (JArr xs) = xs"
  "\<not> isArray v \<Longrightarrow> truthy v \<Longrightarrow> paramArray v = [v]"
  "paramArray JNull = []"
  "paramArray JUndefined = []"
  by (cases v; simp add: paramArray_def)+

text \<open>
  C4. The specification has a single value that is not a sequence become a one-element
  sequence. The source tests the value's truthiness: the scalars \<open>0\<close>, \<open>false\<close> and the
  empty string become the empty sequence, and \<open>validateParams\<close> of a one-placeholder
  query and the parameter \<open>0\<close> fails with \<open>VALIDATION_MISMATCH\<close>.
\<close>


theorem falsy_scalar_param_dropped:
  "paramArray (JNum (Fin 0)) = []
   \<and> paramArray (JBool False) = []
   \<and> paramArray (JNum NaN) = []
   \<and> paramArray (JStr []) = []
   \<and> validateParams rt ''SELECT * FROM users WHERE id = ?'' (JNum (Fin 0))
       = Inl \<lparr>message = ''Invalid request parameters'',
              details = ''Placeholder count mismatch. Expected 1 parameters but got 0. SQL: ''
                @ ''SELECT * FROM users WHERE id = ?'' @ '', Params: ''
                @ JSON_stringify rt (JArr []),
              type = ''VALIDATION_MISMATCH''\<rparr>"
  by (simp add: paramArray_def validateParams_def count_one_question new_DatabaseError_def
      showNat_Suc_0 showNat_0)

section \<open>The fallback path\<close>

lemma isObject_truthy: "isObject r \<Longrightarrow> truthy r"
  by (cases r) auto

lemma count_users: "countPlaceholders ''SELECT COUNT(*) FROM users'' = 0"
  by code_simp

lemma count_users_valid:
  "validateParams rt ''SELECT COUNT(*) FROM users'' (JArr []) = Inr True"
  by (simp add: validateParams_def paramArray_def count_users checkEmpty.simps)

text \<open>What the fallback of \<open>getOne\<close> computes from any raw result: \<open>result[0] || null\<close>
  on a sequence, \<open>null\<close> otherwise.\<close>

lemma getOne_fallback_exact:
  "adapter_getOne (adapter W) = None \<Longrightarrow> query rt W sql params w = (Inr raw, w') \<Longrightarrow>
   getOne rt W sql params w =
     (Inr (case raw of JArr (r # rs) \<Rightarrow> if truthy r then r else JNull | _ \<Rightarrow> JNull), w')"
  by (auto simp: getOne_fallback js_or_def index0_def split: jsval.splits list.splits)

text \<open>
  C6. When the adapter lacks the specialised method, the raw result of \<open>query\<close>, a
  sequence of row objects or a value that is not a sequence, is post-processed:
  \<open>getOne\<close> yields the first element of the result sequence, and \<open>null\<close> when the
  sequence is empty or when the raw result is not a sequence, so it does not throw for
  zero matches; \<open>get\<close> turns a raw result that is not a sequence into the empty
  sequence; \<open>exec\<close> returns what \<open>query\<close> returns.
\<close>

theorem fallback_postprocessing:
  "(adapter_getOne (adapter W) = None \<and> query rt W sql params w = (Inr raw, w')
      \<and> row_result raw \<longrightarrow>
      getOne rt W sql params w =
        (Inr (case raw of JArr (r # rs) \<Rightarrow> r | _ \<Rightarrow> JNull), w'))
   \<and> (adapter_get (adapter W) = None \<and> query rt W sql params w = (Inr raw, w') \<longrightarrow>
        get rt W sql params w = (Inr (if isArray raw then raw else JArr []), w'))
   \<and> (adapter_exec (adapter W) = None \<longrightarrow> exec rt W sql params w = query rt W sql params w)"
proof (intro conjI impI)
  assume a: "adapter_getOne (adapter W) = None \<and> query rt W sql params w = (Inr raw, w')
      \<and> row_result raw"
  show "getOne rt W sql params w =
        (Inr (case raw of JArr (r # rs) \<Rightarrow> r | _ \<Rightarrow> JNull), w')"
  proof (cases raw)
    case (JArr rows)
    show ?thesis
    proof (cases rows)
      case Nil
      with a JArr show ?thesis
        by (simp add: getOne_fallback_exact)
    next
      case (Cons r rs)
      with a JArr have "isObject r"
        by (simp add: row_result_def)
      then have "truthy r"
        by (rule isObject_truthy)
      with a JArr Cons show ?thesis
        by (simp add: getOne_fallback_exact)
    qed
  qed (use a in \<open>simp_all add: getOne_fallback_exact\<close>)
next
  assume "adapter_get (adapter W) = None \<and> query rt W sql params w = (Inr raw, w')"
  then show "get rt W sql params w = (Inr (if isArray raw then raw else JArr []), w')"
    by (simp add: get_fallback)
next
  assume "adapter_exec (adapter W) = None"
  then show "exec rt W sql params w = query rt W sql params w"
    by (rule exec_fallback)
qed

lemma select_john_valid:
  "validateParams rt ''SELECT * FROM users WHERE id = ?'' (JArr [JNum (Fin 1)]) = Inr True"
  by (simp add: validateParams_def paramArray_def count_one_question checkEmpty.simps
      isEmptyValue_def)

lemma query_one_row:
  "query example_runtime \<lparr>connection = (), adapter = mockAdapter one_row None None None\<rparr>
     ''SELECT * FROM users WHERE id = ?'' (JArr [JNum (Fin 1)]) ([], ())
   = (Inr (JArr [john]),
      ([Call ''executeQuery'' [JStr ''SELECT * FROM users WHERE id = ?'', JArr [JNum (Fin 1)]]],
       ()))"
  by (simp add: query_unfold select_john_valid defaultParams_def mockAdapter_def
      mock_method_def spy_def one_row_def io_return_def)

lemma query_no_rows:
  "query example_runtime \<lparr>connection = (), adapter = mockAdapter no_rows None None None\<rparr>
     ''SELECT * FROM users WHERE id = ?'' (JArr [JNum (Fin 1)]) ([], ())
   = (Inr (JArr []),
      ([Call ''executeQuery'' [JStr ''SELECT * FROM users WHERE id = ?'', JArr [JNum (Fin 1)]]],
       ()))"
  by (simp add: query_unfold select_john_valid defaultParams_def mockAdapter_def
      mock_method_def spy_def no_rows_def io_return_def)

lemma query_one_report:
  "query example_runtime \<lparr>connection = (), adapter = mockAdapter one_report None None None\<rparr>
     ''SELECT * FROM users WHERE id = ?'' (JArr [JNum (Fin 1)]) ([], ())
   = (Inr insert_report,
      ([Call ''executeQuery'' [JStr ''SELECT * FROM users WHERE id = ?'', JArr [JNum (Fin 1)]]],
       ()))"
  by (simp add: query_unfold select_john_valid defaultParams_def mockAdapter_def
      mock_method_def spy_def one_report_def io_return_def)

theorem fallback_postprocessing_witness:
  "getOne example_runtime \<lparr>connection = (), adapter = mockAdapter one_row None None None\<rparr>
     ''SELECT * FROM users WHERE id = ?'' (JArr [JNum (Fin 1)]) ([], ())
   = (Inr john,
      ([Call ''executeQuery'' [JStr ''SELECT * FROM users WHERE id = ?'', JArr [JNum (Fin 1)]]],
       ()))
   \<and> get example_runtime \<lparr>connection = (), adapter = mockAdapter one_row None None None\<rparr>
     ''SELECT * FROM users WHERE id = ?'' (JArr [JNum (Fin 1)]) ([], ())
   = (Inr (JArr [john]),
      ([Call ''executeQuery'' [JStr ''SELECT * FROM users WHERE id = ?'', JArr [JNum (Fin 1)]]],
       ()))
   \<and> exec example_runtime \<lparr>connection = (), adapter = mockAdapter one_row None None None\<rparr>
     ''SELECT * FROM users WHERE id = ?'' (JArr [JNum (Fin 1)]) ([], ())
   = (Inr (JArr [john]),
      ([Call ''executeQuery'' [JStr ''SELECT * FROM users WHERE id = ?'', JArr [JNum (Fin 1)]]],
       ()))
   \<and> getOne example_runtime \<lparr>connection = (), adapter = mockAdapter no_rows None None None\<rparr>
     ''SELECT * FROM users WHERE id = ?'' (JArr [JNum (Fin 1)]) ([], ())
   = (Inr JNull,
      ([Call ''executeQuery'' [JStr ''SELECT * FROM users WHERE id = ?'', JArr [JNum (Fin 1)]]],
       ()))
   \<and> getOne example_runtime
       \<lparr>connection = (), adapter = mockAdapter one_report None None None\<rparr>
     ''SELECT * FROM users WHERE id = ?'' (JArr [JNum (Fin 1)]) ([], ())
   = (Inr JNull,
      ([Call ''executeQuery'' [JStr ''SELECT * FROM users WHERE id = ?'', JArr [JNum (Fin 1)]]],
       ()))
   \<and> get example_runtime \<lparr>connection = (), adapter = mockAdapter one_report None None None\<rparr>
     ''SELECT * FROM users WHERE id = ?'' (JArr [JNum (Fin 1)]) ([], ())
   = (Inr (JArr []),
      ([Call ''executeQuery'' [JStr ''SELECT * FROM users WHERE id = ?'', JArr [JNum (Fin 1)]]],
       ()))"
  using fallback_postprocessing [where rt = example_runtime
      and W = "\<lparr>connection = (), adapter = mockAdapter no_rows None None None\<rparr>"
      and sql = "''SELECT * FROM users WHERE id = ?''" and params = "JArr [JNum (Fin 1)]"
      and w = "([], ())" and raw = "JArr []"
      and w' = "([Call ''executeQuery''
                   [JStr ''SELECT * FROM users WHERE id = ?'', JArr [JNum (Fin 1)]]], ())"]
    query_no_rows
  using fallback_postprocessing [where rt = example_runtime
      and W = "\<lparr>connection = (), adapter = mockAdapter one_report None None None\<rparr>"
      and sql = "''SELECT * FROM users WHERE id = ?''" and params = "JArr [JNum (Fin 1)]"
      and w = "([], ())" and raw = insert_report
      and w' = "([Call ''executeQuery''
                   [JStr ''SELECT * FROM users WHERE id = ?'', JArr [JNum (Fin 1)]]], ())"]
    query_one_report
  using fallback_postprocessing [where rt = example_runtime
      and W = "\<lparr>connection = (), adapter = mockAdapter one_row None None None\<rparr>"
      and sql = "''SELECT * FROM users WHERE id = ?''" and params = "JArr [JNum (Fin 1)]"
      and w = "([], ())" and raw = "JArr [john]"
      and w' = "([Call ''executeQuery''
                   [JStr ''SELECT * FROM users WHERE id = ?'', JArr [JNum (Fin 1)]]], ())"]
    query_one_row
  by (simp add: mockAdapter_def john_def insert_report_def row_result_def)

text \<open>The row objects matter: for an adapter that plucks the one column of a count and
  resolves to \<open>[0]\<close>, \<open>query\<close> returns \<open>[0]\<close> and the fallback of \<open>getOne\<close> returns
  \<open>null\<close>.\<close>

lemma getOne_fallback_falsy_first_element:
  "query example_runtime \<lparr>connection = (), adapter = mockAdapter plucked_count None None None\<rparr>
     ''SELECT COUNT(*) FROM users'' (JArr []) ([], ())
     = (Inr (JArr [JNum (Fin 0)]),
        ([Call ''executeQuery'' [JStr ''SELECT COUNT(*) FROM users'', JArr []]], ()))
   \<and> getOne example_runtime
       \<lparr>connection = (), adapter = mockAdapter plucked_count None None None\<rparr>
       ''SELECT COUNT(*) FROM users'' (JArr []) ([], ())
     = (Inr JNull, ([Call ''executeQuery'' [JStr ''SELECT COUNT(*) FROM users'', JArr []]], ()))"
  by (simp add: getOne_fallback query_unfold count_users_valid defaultParams_def mockAdapter_def
      mock_method_def spy_def plucked_count_def io_return_def js_or_def index0_def)

section \<open>The two paths of the MySQL adapter\<close>

lemma destructure_first_cases:
  "destructure_first rt site v w =
     (case v of
        JArr xs \<Rightarrow> (Inr (index0 xs), w)
      | JStr cs \<Rightarrow> (Inr (case cs of [] \<Rightarrow> JUndefined | c # _ \<Rightarrow> JStr [c]), w)
      | _ \<Rightarrow> (Inl (OtherError (not_iterable rt site v)), w))"
  by (simp add: destructure_first_def io_return_def io_throw_def split: jsval.splits)


lemma mysql_executeQuery_unfold:
  "mysql_executeQuery rt conn sql params w =
     (case execute conn sql params w of
        (Inl e, w') \<Rightarrow> (Inl e, w')
      | (Inr v, w') \<Rightarrow> destructure_first rt ''executeQuery'' v w')"
  by (simp add: mysql_executeQuery_def io_catch_def io_bind_def io_throw_def io_return_def
      split: prod.splits sum.splits)


lemma mysql_get_unfold:
  "mysql_get rt conn sql params w =
     (case execute conn sql params w of
        (Inl e, w') \<Rightarrow> (Inl e, w')
      | (Inr v, w') \<Rightarrow>
         (case destructure_first rt ''get'' v w' of
            (Inl e, w'') \<Rightarrow> (Inl e, w'')
          | (Inr rows, w'') \<Rightarrow> (Inr (if isArray rows then rows else JArr []), w'')))"
  by (simp add: mysql_get_def io_catch_def io_bind_def io_throw_def io_return_def
      split: prod.splits sum.splits)

lemma mysql_getOne_unfold:
  "mysql_getOne rt conn sql params w =
     (case execute conn sql params w of
        (Inl e, w') \<Rightarrow> (Inl e, w')
      | (Inr v, w') \<Rightarrow>
         (case destructure_first rt ''getOne'' v w' of
            (Inl e, w'') \<Rightarrow> (Inl e, w'')
          | (Inr rows, w'') \<Rightarrow>
              (Inr (case rows of JArr (r # rs) \<Rightarrow> r | _ \<Rightarrow> JNull), w'')))"
  by (simp add: mysql_getOne_def io_catch_def io_bind_def io_throw_def io_return_def
      split: prod.splits sum.splits jsval.splits list.splits)

lemma mysql_adapters [simp]:
  "adapter_executeQuery (mysqlAdapter rt) = mysql_executeQuery rt"
  "adapter_getOne (mysqlAdapter rt) = Some (mysql_getOne rt)"
  "adapter_get (mysqlAdapter rt) = Some (mysql_get rt)"
  "adapter_exec (mysqlAdapter rt) = Some (mysql_exec rt)"
  "adapter_executeQuery (mysqlFallbackAdapter rt) = mysql_executeQuery rt"
  "adapter_getOne (mysqlFallbackAdapter rt) = None"
  "adapter_get (mysqlFallbackAdapter rt) = None"
  "adapter_exec (mysqlFallbackAdapter rt) = None"
  by (simp_all add: mysqlAdapter_def mysqlFallbackAdapter_def)










text \<open>Both hypotheses matter. For a first row that is no object, \<open>[[0], []]\<close>, the
  specialised \<open>getOne\<close> returns \<open>0\<close> and the fallback \<open>null\<close>. For a value that is not
  iterable, both paths raise a \<open>DatabaseError\<close> with the same message and type, whose
  details quote the stacks of two \<open>TypeError\<close>s raised in different functions.\<close>

lemma mysql_getOne_paths_differ:
  "getOne example_runtime \<lparr>connection = count_connection, adapter = mysqlAdapter example_runtime\<rparr>
     ''SELECT COUNT(*) FROM users'' (JArr []) () = (Inr (JNum (Fin 0)), ())
   \<and> getOne example_runtime
       \<lparr>connection = count_connection, adapter = mysqlFallbackAdapter example_runtime\<rparr>
       ''SELECT COUNT(*) FROM users'' (JArr []) () = (Inr JNull, ())"
  by (simp add: getOne_specialised getOne_fallback query_unfold mysql_getOne_unfold
      mysql_executeQuery_unfold count_users_valid defaultParams_def count_connection_def
      io_return_def destructure_first_cases index0_def js_or_def)

lemma classify_not_iterable:
  "classify (not_iterable rt site v) = classify (not_iterable rt site' v)"
  by (simp add: classify_def not_iterable_def message_includes_def)

lemma mysql_get_not_iterable:
  assumes "validateParams rt sql (defaultParams params) = Inr ok"
    and "execute conn sql (defaultParams params) w = (Inr v, w')"
    and "\<not> iterable v"
  shows "get rt \<lparr>connection = conn, adapter = mysqlAdapter rt\<rparr> sql params w =
           (Inl (DbError (wrapDatabaseError rt (not_iterable rt ''get'' v) sql
                            (defaultParams params))), w')"
    and "get rt \<lparr>connection = conn, adapter = mysqlFallbackAdapter rt\<rparr> sql params w =
           (Inl (DbError (wrapDatabaseError rt (not_iterable rt ''executeQuery'' v) sql
                            (defaultParams params))), w')"
  using assms
  by (cases v; simp add: get_specialised get_fallback query_unfold mysql_get_unfold
      mysql_executeQuery_unfold destructure_first_cases)+

section \<open>Transactions\<close>

lemma mysql_transaction_unfold:
  "mysql_transaction conn callback w =
     (case beginTransaction conn w of
        (Inl e, w1) \<Rightarrow> (case rollback conn w1 of (Inl re, w2) \<Rightarrow> (Inl re, w2)
                                               | (Inr u, w2) \<Rightarrow> (Inl e, w2))
      | (Inr b, w1) \<Rightarrow>
         (case callback w1 of
            (Inl e, w2) \<Rightarrow> (case rollback conn w2 of (Inl re, w3) \<Rightarrow> (Inl re, w3)
                                                   | (Inr u, w3) \<Rightarrow> (Inl e, w3))
          | (Inr result, w2) \<Rightarrow>
             (case commit conn w2 of
                (Inl e, w3) \<Rightarrow> (case rollback conn w3 of (Inl re, w4) \<Rightarrow> (Inl re, w4)
                                                       | (Inr u, w4) \<Rightarrow> (Inl e, w4))
              | (Inr c, w3) \<Rightarrow> (Inr result, w3))))"
  by (simp add: mysql_transaction_def io_catch_def io_bind_def io_throw_def io_return_def
      split: prod.splits sum.splits)

lemma mockConnection_simps [simp]:
  "beginTransaction (mockConnection impl) (calls, d) =
     (fst (beginTransaction impl d), (calls @ [Call ''beginTransaction'' []],
      snd (beginTransaction impl d)))"
  "commit (mockConnection impl) (calls, d) =
     (fst (commit impl d), (calls @ [Call ''commit'' []], snd (commit impl d)))"
  "rollback (mockConnection impl) (calls, d) =
     (fst (rollback impl d), (calls @ [Call ''rollback'' []], snd (rollback impl d)))"
  "execute (mockConnection impl) sql params (calls, d) =
     (fst (execute impl sql params d), (calls @ [Call ''execute'' [JStr sql, params]],
      snd (execute impl sql params d)))"
  by (simp_all add: mockConnection_def spy_def split: prod.splits)

text \<open>
  C8, amended. Let the begin succeed and the unit of work run, on a connection whose
  methods count their calls. When the unit succeeds, commit is called next; if the commit
  succeeds, the unit's result is returned and rollback is not called; if the commit
  fails, rollback is called and the commit's failure is raised, or the rollback's if that
  fails too. When the unit fails, rollback is called next and commit is not; the unit's
  failure is raised again, unless the rollback fails, whose failure is raised instead.
\<close>

theorem transaction_outcome:
  "beginTransaction impl d0 = (Inr b, d1) \<Longrightarrow>
   callback (calls @ [Call ''beginTransaction'' []], d1) = (ru, (calls2, d2)) \<Longrightarrow>
   (ru = Inr result \<and> commit impl d2 = (Inr c, d3) \<longrightarrow>
      mysql_transaction (mockConnection impl) callback (calls, d0)
        = (Inr result, (calls2 @ [Call ''commit'' []], d3)))
   \<and> (ru = Inr result \<and> commit impl d2 = (Inl ce, d3') \<and> rollback impl d3' = (rr', d4') \<longrightarrow>
      mysql_transaction (mockConnection impl) callback (calls, d0)
        = (Inl (case rr' of Inl re \<Rightarrow> re | Inr u \<Rightarrow> ce),
           (calls2 @ [Call ''commit'' [], Call ''rollback'' []], d4')))
   \<and> (ru = Inl err \<and> rollback impl d2 = (rr, d3'') \<longrightarrow>
      mysql_transaction (mockConnection impl) callback (calls, d0)
        = (Inl (case rr of Inl re \<Rightarrow> re | Inr u \<Rightarrow> err),
           (calls2 @ [Call ''rollback'' []], d3'')))"
proof -
  assume begun: "beginTransaction impl d0 = (Inr b, d1)"
    and ran: "callback (calls @ [Call ''beginTransaction'' []], d1) = (ru, (calls2, d2))"
  show ?thesis
  proof (cases ru)
    case (Inl err')
    with begun ran show ?thesis
      by (auto simp: mysql_transaction_unfold split: sum.splits)
  next
    case (Inr result')
    with begun ran show ?thesis
      by (auto simp: mysql_transaction_unfold split: sum.splits)
  qed
qed

text \<open>
  C8 as stated fails when the commit is rejected: the unit of work has returned
  \<open>'success'\<close>, yet rollback is called and the transaction raises the commit's error.
\<close>

theorem commit_failure_rolls_back:
  "unit_succeeds ([Call ''beginTransaction'' []], ())
     = (Inr (JStr ''success''), ([Call ''beginTransaction'' []], ()))
   \<and> mysql_transaction (mockConnection commit_fails) unit_succeeds ([], ())
     = (Inl (OtherError commit_error),
        ([Call ''beginTransaction'' [], Call ''commit'' [], Call ''rollback'' []], ()))"
  by (simp add: mysql_transaction_unfold commit_fails_def healthy_def unit_succeeds_def
      io_return_def io_throw_def)

theorem transaction_outcome_witness:
  "mysql_transaction (mockConnection healthy) unit_succeeds ([], ())
     = (Inr (JStr ''success''), ([Call ''beginTransaction'' [], Call ''commit'' []], ()))
   \<and> mysql_transaction (mockConnection healthy)
       (unit_fails_after_insert (mockConnection healthy)) ([], ())
     = (Inl (OtherError unit_error),
        ([Call ''beginTransaction'' [],
          Call ''execute'' [JStr ''INSERT INTO users (name) VALUES (?)'', JArr [JStr ''John'']],
          Call ''rollback'' []], ()))
   \<and> mysql_transaction (mockConnection rollback_fails) unit_fails ([], ())
     = (Inl (OtherError rollback_error),
        ([Call ''beginTransaction'' [], Call ''rollback'' []], ()))
   \<and> mysql_transaction (mockConnection commit_fails) unit_succeeds ([Call ''execute'' []], ())
     = (Inl (OtherError commit_error),
        ([Call ''execute'' [], Call ''beginTransaction'' [], Call ''commit'' [],
          Call ''rollback'' []], ()))"
proof (intro conjI)
  show "mysql_transaction (mockConnection healthy) unit_succeeds ([], ())
     = (Inr (JStr ''success''), ([Call ''beginTransaction'' [], Call ''commit'' []], ()))"
    using transaction_outcome [where impl = healthy and ?d0.0 = "()" and b = JUndefined
        and ?d1.0 = "()" and callback = unit_succeeds and calls = "[]"
        and ru = "Inr (JStr ''success'')" and ?calls2.0 = "[Call ''beginTransaction'' []]"
        and ?d2.0 = "()" and result = "JStr ''success''" and c = JUndefined and ?d3.0 = "()"]
    by (simp add: healthy_def unit_succeeds_def io_return_def)
next
  show "mysql_transaction (mockConnection healthy)
       (unit_fails_after_insert (mockConnection healthy)) ([], ())
     = (Inl (OtherError unit_error),
        ([Call ''beginTransaction'' [],
          Call ''execute'' [JStr ''INSERT INTO users (name) VALUES (?)'', JArr [JStr ''John'']],
          Call ''rollback'' []], ()))"
    using transaction_outcome [where impl = healthy and ?d0.0 = "()" and b = JUndefined
        and ?d1.0 = "()" and callback = "unit_fails_after_insert (mockConnection healthy)"
        and calls = "[]" and ru = "Inl (OtherError unit_error)"
        and ?calls2.0 = "[Call ''beginTransaction'' [],
          Call ''execute'' [JStr ''INSERT INTO users (name) VALUES (?)'', JArr [JStr ''John'']]]"
        and ?d2.0 = "()" and err = "OtherError unit_error" and rr = "Inr JUndefined"
        and ?d3''.0 = "()"]
    by (simp add: healthy_def unit_fails_after_insert_def io_bind_def io_return_def io_throw_def)
next
  show "mysql_transaction (mockConnection rollback_fails) unit_fails ([], ())
     = (Inl (OtherError rollback_error),
        ([Call ''beginTransaction'' [], Call ''rollback'' []], ()))"
    using transaction_outcome [where impl = rollback_fails and ?d0.0 = "()" and b = JUndefined
        and ?d1.0 = "()" and callback = unit_fails and calls = "[]"
        and ru = "Inl (OtherError unit_error)" and ?calls2.0 = "[Call ''beginTransaction'' []]"
        and ?d2.0 = "()" and err = "OtherError unit_error"
        and rr = "Inl (OtherError rollback_error)" and ?d3''.0 = "()"]
    by (simp add: rollback_fails_def healthy_def unit_fails_def io_return_def io_throw_def)
next
  show "mysql_transaction (mockConnection commit_fails) unit_succeeds ([Call ''execute'' []], ())
     = (Inl (OtherError commit_error),
        ([Call ''execute'' [], Call ''beginTransaction'' [], Call ''commit'' [],
          Call ''rollback'' []], ()))"
    using transaction_outcome [where impl = commit_fails and ?d0.0 = "()" and b = JUndefined
        and ?d1.0 = "()" and callback = unit_succeeds and calls = "[Call ''execute'' []]"
        and ru = "Inr (JStr ''success'')"
        and ?calls2.0 = "[Call ''execute'' [], Call ''beginTransaction'' []]"
        and ?d2.0 = "()" and result = "JStr ''success''" and ce = "OtherError commit_error"
        and ?d3'.0 = "()" and rr' = "Inr JUndefined" and ?d4'.0 = "()"]
    by (simp add: commit_fails_def healthy_def unit_succeeds_def io_return_def io_throw_def)
qed

section \<open>Errors that reach the caller\<close>

lemma count_select_1: "countPlaceholders ''SELECT 1'' = 0"
  by code_simp

lemma select_1_valid: "validateParams rt ''SELECT 1'' (JArr []) = Inr True"
  by (simp add: validateParams_def paramArray_def count_select_1 checkEmpty.simps)

text \<open>What does hold: an error out of \<open>query\<close>, \<open>getOne\<close>, \<open>get\<close> or \<open>exec\<close> is a
  \<open>DatabaseError\<close>, and a \<open>DatabaseError\<close> the adapter throws is passed on as it is.\<close>

lemma query_error_classified:
  "query rt W sql params w = (Inl t, w') \<Longrightarrow> \<exists>e. t = DbError e"
  by (auto simp: query_unfold split: sum.splits prod.splits thrown.splits)

lemma getOne_error_classified:
  "getOne rt W sql params w = (Inl t, w') \<Longrightarrow> \<exists>e. t = DbError e"
  by (cases "adapter_getOne (adapter W)")
     (auto simp: getOne_specialised getOne_fallback
       split: sum.splits prod.splits thrown.splits dest: query_error_classified)

lemma get_error_classified:
  "get rt W sql params w = (Inl t, w') \<Longrightarrow> \<exists>e. t = DbError e"
  by (cases "adapter_get (adapter W)")
     (auto simp: get_specialised get_fallback
       split: sum.splits prod.splits thrown.splits dest: query_error_classified)

lemma exec_error_classified:
  "exec rt W sql params w = (Inl t, w') \<Longrightarrow> \<exists>e. t = DbError e"
  by (cases "adapter_exec (adapter W)")
     (auto simp: exec_specialised exec_fallback
       split: sum.splits prod.splits thrown.splits dest: query_error_classified)

lemma query_passes_DatabaseError:
  "validateParams rt sql (defaultParams params) = Inr ok \<Longrightarrow>
   adapter_executeQuery (adapter W) (connection W) sql (defaultParams params) w
     = (Inl (DbError e), w') \<Longrightarrow>
   query rt W sql params w = (Inl (DbError e), w')"
  by (simp add: query_unfold)

text \<open>
  C9. The specification has every error that an operation of the wrapped database
  surfaces classified. On a connection that refuses every call, \<open>beginTransaction\<close>,
  \<open>commit\<close> and \<open>rollback\<close> of the object \<open>wrap\<close> returns reject with the driver's own
  error, code \<open>ECONNREFUSED\<close>, while \<open>query\<close> on the same connection raises a
  \<open>DatabaseError\<close> of type \<open>DB_CONNECTION\<close>.
\<close>

theorem transaction_methods_pass_raw_errors:
  "\<exists>db begin commit' rollback' e.
      wrap example_runtime (Some refusing) ''mysql'' = Inr db
      \<and> db_beginTransaction db = Some begin \<and> begin () = (Inl (OtherError refused_error), ())
      \<and> db_commit db = Some commit' \<and> commit' () = (Inl (OtherError refused_error), ())
      \<and> db_rollback db = Some rollback' \<and> rollback' () = (Inl (OtherError refused_error), ())
      \<and> db_query db ''SELECT 1'' (JArr []) () = (Inl (DbError e), ())
      \<and> type e = ''DB_CONNECTION''"
  by (simp add: wrap_def require_adapter_def mysqlAdapter_def Let_def mysql_beginTransaction_def
      mysql_commit_def mysql_rollback_def refusing_def io_catch_def io_bind_def io_throw_def
      query_unfold select_1_valid defaultParams_def mysql_executeQuery_unfold
      wrapDatabaseError_classify classify_def refused_error_def message_includes_def)

end
